theory Spec2Isabelle
  imports Complex_Main "HOL-Library.Sublist" "HOL-Library.Multiset"
begin

section \<open>Data model of the frontends (types/api.ts)\<close>

text \<open>
  JavaScript strings are modelled as \<^typ>\<open>string\<close>, one \<^typ>\<open>char\<close> per code unit (the
  code units 0..255). A value of TypeScript type \<open>any\<close> is a JSON value. An optional
  field \<open>f?: T\<close> is a \<open>T option\<close>; \<open>Date\<close> is its epoch time in milliseconds.
\<close>

datatype json =
    JNull
  | JBool bool
  | JNum real
  | JStr string
  | JArr "json list"
  | JObj "(string \<times> json) list"

record YouTubeVideo =
  yv_id :: string
  yv_title :: string
  yv_duration :: "real option"
  yv_view_count :: "real option"
  yv_upload_date :: "string option"
  yv_uploader :: "string option"
  yv_description :: "string option"
  yv_thumbnail_url :: "string option"
  yv_available_languages :: "string list"
  yv_has_captions :: bool
  yv_url :: string

record TranscriptSegment =
  ts_text :: string
  ts_timestamp :: "real option"

record RAGSearchResult =
  rs_text :: string
  rs_timestamp :: "real option"
  rs_segment_index :: int
  rs_relevance_score :: real
  rs_metadata :: "(string \<times> json) list"

datatype VerificationStatus = Verified | Partially_Verified | False_claim | Unclear

datatype SourceType = Wikipedia | PubMed | Semantic_Scholar | News | Search_Engine | Academic

record VerificationSource =
  vs_title :: string
  vs_url :: string
  vs_source_type :: SourceType
  vs_relevance_score :: real
  vs_excerpt :: string
  vs_publication_date :: "string option"
  vs_author :: "string option"

record ClaimVerification =
  cv_claim :: string
  cv_status :: VerificationStatus
  cv_confidence :: real
  cv_explanation :: string
  cv_sources :: "VerificationSource list"
  cv_verification_date :: string
  cv_agent_reasoning :: string

datatype message_type = User | Assistant

record ChatMessage =
  cm_id :: string
  cm_type :: message_type
  cm_content :: string
  cm_timestamp :: nat
  cm_sources :: "RAGSearchResult list option"
  cm_factCheck :: "ClaimVerification list option"
  cm_isTyping :: "bool option"

text \<open>\<open>Omit<ChatMessage, 'id' | 'timestamp'>\<close>, the argument of \<open>addChatMessage\<close>.\<close>

record ChatMessageInput =
  mi_type :: message_type
  mi_content :: string
  mi_sources :: "RAGSearchResult list option"
  mi_factCheck :: "ClaimVerification list option"
  mi_isTyping :: "bool option"

text \<open>
  \<open>Partial<ChatMessage>\<close>: every key may be absent (\<open>None\<close>). A key of an optional
  field may also be present with the value \<open>undefined\<close> (\<open>Some None\<close>).
\<close>

record ChatMessageUpdates =
  up_id :: "string option"
  up_type :: "message_type option"
  up_content :: "string option"
  up_timestamp :: "nat option"
  up_sources :: "RAGSearchResult list option option"
  up_factCheck :: "ClaimVerification list option option"
  up_isTyping :: "bool option option"

record SearchState =
  ss_query :: string
  ss_results :: "YouTubeVideo list"
  ss_loading :: bool
  ss_error :: "string option"

record WorkspaceState =
  currentVideo :: "YouTubeVideo option"
  transcript :: "TranscriptSegment list"
  isProcessing :: bool
  isProcessed :: bool
  ragReady :: bool
  chatMessages :: "ChatMessage list"
  factChecking :: bool
  currentFactCheck :: "ClaimVerification list option"

section \<open>The store (store/useStore.ts)\<close>

datatype theme = Light | Dark

record PlayerState =
  isPlaying :: bool
  currentTime :: real
  duration :: real

record UIState =
  ui_theme :: theme
  sidebarOpen :: bool
  currentPlayer :: PlayerState

record SavedInsight =
  si_id :: string
  si_videoId :: string
  si_videoTitle :: string
  si_query :: string
  si_answer :: string
  si_sources :: "RAGSearchResult list"
  si_factCheck :: "ClaimVerification list option"
  si_timestamp :: string

text \<open>\<open>Omit<AppState['savedInsights'][0], 'id' | 'timestamp'>\<close>.\<close>

record SavedInsightInput =
  ii_videoId :: string
  ii_videoTitle :: string
  ii_query :: string
  ii_answer :: string
  ii_sources :: "RAGSearchResult list"
  ii_factCheck :: "ClaimVerification list option"

record AppState =
  search :: SearchState
  workspace :: WorkspaceState
  ui :: UIState
  savedInsights :: "SavedInsight list"

definition initialSearchState :: SearchState where
  "initialSearchState = \<lparr>ss_query = [], ss_results = [], ss_loading = False, ss_error = None\<rparr>"

definition initialWorkspaceState :: WorkspaceState where
  "initialWorkspaceState =
     \<lparr>currentVideo = None, transcript = [], isProcessing = False, isProcessed = False,
      ragReady = False, chatMessages = [], factChecking = False, currentFactCheck = None\<rparr>"

definition initialState :: AppState where
  "initialState =
     \<lparr>search = initialSearchState, workspace = initialWorkspaceState,
      ui = \<lparr>ui_theme = Light, sidebarOpen = False,
            currentPlayer = \<lparr>isPlaying = False, currentTime = 0, duration = 0\<rparr>\<rparr>,
      savedInsights = []\<rparr>"

subsection \<open>Number.prototype.toString for non-negative integers\<close>

definition digit_char :: "nat \<Rightarrow> char" where
  "digit_char d = ''0123456789'' ! d"

fun show_nat :: "nat \<Rightarrow> string" where
  "show_nat n = (if n < 10 then [digit_char n] else show_nat (n div 10) @ [digit_char (n mod 10)])"

declare show_nat.simps [simp del]

subsection \<open>Workspace actions\<close>

text \<open>
  zustand's \<open>set\<close> merges the returned partial state into the store: an action that returns
  \<open>{ workspace: ... }\<close> replaces the \<open>workspace\<close> field and keeps the others.
\<close>

definition setCurrentVideo :: "YouTubeVideo option \<Rightarrow> AppState \<Rightarrow> AppState" where
  "setCurrentVideo v state = state\<lparr>workspace := (workspace state)\<lparr>currentVideo := v\<rparr>\<rparr>"

definition setTranscript :: "TranscriptSegment list \<Rightarrow> AppState \<Rightarrow> AppState" where
  "setTranscript t state = state\<lparr>workspace := (workspace state)\<lparr>transcript := t\<rparr>\<rparr>"

definition setIsProcessing :: "bool \<Rightarrow> AppState \<Rightarrow> AppState" where
  "setIsProcessing b state = state\<lparr>workspace := (workspace state)\<lparr>isProcessing := b\<rparr>\<rparr>"

definition setIsProcessed :: "bool \<Rightarrow> AppState \<Rightarrow> AppState" where
  "setIsProcessed b state = state\<lparr>workspace := (workspace state)\<lparr>isProcessed := b\<rparr>\<rparr>"

definition setRagReady :: "bool \<Rightarrow> AppState \<Rightarrow> AppState" where
  "setRagReady b state = state\<lparr>workspace := (workspace state)\<lparr>ragReady := b\<rparr>\<rparr>"

definition setFactChecking :: "bool \<Rightarrow> AppState \<Rightarrow> AppState" where
  "setFactChecking b state = state\<lparr>workspace := (workspace state)\<lparr>factChecking := b\<rparr>\<rparr>"

definition setCurrentFactCheck :: "ClaimVerification list option \<Rightarrow> AppState \<Rightarrow> AppState" where
  "setCurrentFactCheck f state = state\<lparr>workspace := (workspace state)\<lparr>currentFactCheck := f\<rparr>\<rparr>"

text \<open>
  \<open>addChatMessage\<close> reads the clock twice: \<open>now\<close> is the value of \<open>Date.now()\<close>,
  \<open>date\<close> the value of \<open>new Date()\<close>.
\<close>

definition newMessage :: "nat \<Rightarrow> nat \<Rightarrow> ChatMessageInput \<Rightarrow> ChatMessage" where
  "newMessage now date message =
     \<lparr>cm_id = show_nat now, cm_type = mi_type message, cm_content = mi_content message,
      cm_timestamp = date, cm_sources = mi_sources message,
      cm_factCheck = mi_factCheck message, cm_isTyping = mi_isTyping message\<rparr>"

definition addChatMessage :: "nat \<Rightarrow> nat \<Rightarrow> ChatMessageInput \<Rightarrow> AppState \<Rightarrow> AppState" where
  "addChatMessage now date message state =
     state\<lparr>workspace := (workspace state)
       \<lparr>chatMessages := chatMessages (workspace state) @ [newMessage now date message]\<rparr>\<rparr>"

text \<open>The object spread \<open>{ ...m, ...updates }\<close>: every key present in \<open>updates\<close> wins.\<close>

definition merge_updates :: "ChatMessage \<Rightarrow> ChatMessageUpdates \<Rightarrow> ChatMessage" where
  "merge_updates m u =
     \<lparr>cm_id = (case up_id u of None \<Rightarrow> cm_id m | Some v \<Rightarrow> v),
      cm_type = (case up_type u of None \<Rightarrow> cm_type m | Some v \<Rightarrow> v),
      cm_content = (case up_content u of None \<Rightarrow> cm_content m | Some v \<Rightarrow> v),
      cm_timestamp = (case up_timestamp u of None \<Rightarrow> cm_timestamp m | Some v \<Rightarrow> v),
      cm_sources = (case up_sources u of None \<Rightarrow> cm_sources m | Some v \<Rightarrow> v),
      cm_factCheck = (case up_factCheck u of None \<Rightarrow> cm_factCheck m | Some v \<Rightarrow> v),
      cm_isTyping = (case up_isTyping u of None \<Rightarrow> cm_isTyping m | Some v \<Rightarrow> v)\<rparr>"

definition updateLastMessage :: "ChatMessageUpdates \<Rightarrow> AppState \<Rightarrow> AppState" where
  "updateLastMessage updates state =
     (let messages = chatMessages (workspace state);
          messages' =
            (if length messages > 0
             then messages[length messages - 1 := merge_updates (messages ! (length messages - 1)) updates]
             else messages)
      in state\<lparr>workspace := (workspace state)\<lparr>chatMessages := messages'\<rparr>\<rparr>)"

definition clearChat :: "AppState \<Rightarrow> AppState" where
  "clearChat state = state\<lparr>workspace := (workspace state)\<lparr>chatMessages := []\<rparr>\<rparr>"

definition no_updates :: ChatMessageUpdates where
  "no_updates =
     \<lparr>up_id = None, up_type = None, up_content = None, up_timestamp = None,
      up_sources = None, up_factCheck = None, up_isTyping = None\<rparr>"

subsection \<open>Saved insights\<close>

text \<open>
  \<open>now\<close> is the value of \<open>Date.now()\<close> and \<open>isoNow\<close> the string \<open>new Date().toISOString()\<close>.
\<close>

definition newInsight :: "nat \<Rightarrow> string \<Rightarrow> SavedInsightInput \<Rightarrow> SavedInsight" where
  "newInsight now isoNow insight =
     \<lparr>si_id = show_nat now, si_videoId = ii_videoId insight,
      si_videoTitle = ii_videoTitle insight, si_query = ii_query insight,
      si_answer = ii_answer insight, si_sources = ii_sources insight,
      si_factCheck = ii_factCheck insight, si_timestamp = isoNow\<rparr>"

definition addSavedInsight :: "nat \<Rightarrow> string \<Rightarrow> SavedInsightInput \<Rightarrow> AppState \<Rightarrow> AppState" where
  "addSavedInsight now isoNow insight state =
     state\<lparr>savedInsights := newInsight now isoNow insight # savedInsights state\<rparr>"

definition removeSavedInsight :: "string \<Rightarrow> AppState \<Rightarrow> AppState" where
  "removeSavedInsight ident state =
     state\<lparr>savedInsights := filter (\<lambda>insight. si_id insight \<noteq> ident) (savedInsights state)\<rparr>"

definition clearSavedInsights :: "AppState \<Rightarrow> AppState" where
  "clearSavedInsights state = state\<lparr>savedInsights := []\<rparr>"

section \<open>Properties of the store\<close>

lemma list_update_last_conv:
  "xs \<noteq> [] \<Longrightarrow> xs[length xs - 1 := f (xs ! (length xs - 1))] = butlast xs @ [f (last xs)]"
proof (induction xs rule: rev_induct)
  case Nil
  then show ?case by simp
next
  case (snoc x xs)
  show ?case by simp
qed

lemma updateLastMessage_empty:
  "chatMessages (workspace state) = [] \<Longrightarrow> updateLastMessage updates state = state"
  by (simp add: updateLastMessage_def)

lemma updateLastMessage_nonempty:
  assumes "chatMessages (workspace state) \<noteq> []"
  shows "updateLastMessage updates state =
           state\<lparr>workspace := (workspace state)\<lparr>chatMessages :=
             butlast (chatMessages (workspace state)) @
             [merge_updates (last (chatMessages (workspace state))) updates]\<rparr>\<rparr>"
  using assms list_update_last_conv [of "chatMessages (workspace state)" "\<lambda>m. merge_updates m updates"]
  by (simp add: updateLastMessage_def Let_def)

lemma filter_ids_roundtrip:
  "x \<notin> f ` set xs \<Longrightarrow> filter (\<lambda>i. f i \<noteq> x) xs = xs"
  by (induction xs) auto

text \<open>
  C8. \<open>addChatMessage\<close> appends exactly one message to \<open>workspace.chatMessages\<close> and keeps
  the existing ones. \<open>updateLastMessage\<close> on an empty \<open>chatMessages\<close> leaves the whole store
  as it is; otherwise it replaces the final message by its merge with the updates, and
  every earlier message, every other workspace field and every other store field stay
  the same.
\<close>

theorem chat_messages_frame:
  "chatMessages (workspace (addChatMessage now date message state)) =
     chatMessages (workspace state) @ [newMessage now date message]
   \<and> length (chatMessages (workspace (addChatMessage now date message state))) =
     Suc (length (chatMessages (workspace state)))
   \<and> (chatMessages (workspace state) = [] \<longrightarrow> updateLastMessage updates state = state)
   \<and> (chatMessages (workspace state) \<noteq> [] \<longrightarrow>
        chatMessages (workspace (updateLastMessage updates state)) =
          butlast (chatMessages (workspace state)) @
          [merge_updates (last (chatMessages (workspace state))) updates]
      \<and> (workspace (updateLastMessage updates state))\<lparr>chatMessages := []\<rparr> =
          (workspace state)\<lparr>chatMessages := []\<rparr>
      \<and> search (updateLastMessage updates state) = search state
      \<and> ui (updateLastMessage updates state) = ui state
      \<and> savedInsights (updateLastMessage updates state) = savedInsights state)"
proof -
  have add: "chatMessages (workspace (addChatMessage now date message state)) =
     chatMessages (workspace state) @ [newMessage now date message]"
    by (simp add: addChatMessage_def)
  have empty: "chatMessages (workspace state) = [] \<longrightarrow> updateLastMessage updates state = state"
    by (simp add: updateLastMessage_empty)
  have nonempty: "chatMessages (workspace state) \<noteq> [] \<longrightarrow>
        chatMessages (workspace (updateLastMessage updates state)) =
          butlast (chatMessages (workspace state)) @
          [merge_updates (last (chatMessages (workspace state))) updates]
      \<and> (workspace (updateLastMessage updates state))\<lparr>chatMessages := []\<rparr> =
          (workspace state)\<lparr>chatMessages := []\<rparr>
      \<and> search (updateLastMessage updates state) = search state
      \<and> ui (updateLastMessage updates state) = ui state
      \<and> savedInsights (updateLastMessage updates state) = savedInsights state"
    by (simp add: updateLastMessage_nonempty)
  from add empty nonempty show ?thesis by simp
qed

definition example_question :: ChatMessageInput where
  "example_question =
     \<lparr>mi_type = User, mi_content = ''What is discussed?'', mi_sources = None,
      mi_factCheck = None, mi_isTyping = None\<rparr>"

definition example_typing :: ChatMessageInput where
  "example_typing =
     \<lparr>mi_type = Assistant, mi_content = [], mi_sources = None,
      mi_factCheck = None, mi_isTyping = Some True\<rparr>"

definition example_answer_updates :: ChatMessageUpdates where
  "example_answer_updates = no_updates\<lparr>up_content := Some ''Risk.'', up_isTyping := Some (Some False)\<rparr>"

theorem chat_messages_frame_witness:
  "chatMessages (workspace initialState) = []
   \<and> updateLastMessage example_answer_updates initialState = initialState
   \<and> chatMessages (workspace (addChatMessage 5 6 example_typing
         (addChatMessage 3 4 example_question initialState))) \<noteq> []
   \<and> chatMessages (workspace (updateLastMessage example_answer_updates
         (addChatMessage 5 6 example_typing (addChatMessage 3 4 example_question initialState)))) =
       [newMessage 3 4 example_question,
        \<lparr>cm_id = show_nat 5, cm_type = Assistant, cm_content = ''Risk.'', cm_timestamp = 6,
         cm_sources = None, cm_factCheck = None, cm_isTyping = Some False\<rparr>]"
proof -
  have e: "chatMessages (workspace initialState) = []"
    by (simp add: initialState_def initialWorkspaceState_def)
  have n: "chatMessages (workspace (addChatMessage 5 6 example_typing
         (addChatMessage 3 4 example_question initialState))) \<noteq> []"
    by (simp add: addChatMessage_def)
  from e chat_messages_frame [where state = initialState and updates = example_answer_updates]
  have 1: "updateLastMessage example_answer_updates initialState = initialState"
    by simp
  from n chat_messages_frame [where updates = example_answer_updates
      and state = "addChatMessage 5 6 example_typing (addChatMessage 3 4 example_question initialState)"]
  have "chatMessages (workspace (updateLastMessage example_answer_updates
         (addChatMessage 5 6 example_typing (addChatMessage 3 4 example_question initialState)))) =
       butlast (chatMessages (workspace (addChatMessage 5 6 example_typing
         (addChatMessage 3 4 example_question initialState)))) @
       [merge_updates (last (chatMessages (workspace (addChatMessage 5 6 example_typing
         (addChatMessage 3 4 example_question initialState))))) example_answer_updates]"
    by simp
  then have 2: "chatMessages (workspace (updateLastMessage example_answer_updates
         (addChatMessage 5 6 example_typing (addChatMessage 3 4 example_question initialState)))) =
       [newMessage 3 4 example_question,
        \<lparr>cm_id = show_nat 5, cm_type = Assistant, cm_content = ''Risk.'', cm_timestamp = 6,
         cm_sources = None, cm_factCheck = None, cm_isTyping = Some False\<rparr>]"
    by (simp add: initialState_def initialWorkspaceState_def addChatMessage_def newMessage_def
        example_typing_def example_answer_updates_def no_updates_def merge_updates_def)
  from e n 1 2 show ?thesis by simp
qed

text \<open>
  C9. \<open>addSavedInsight\<close> puts the new insight at the head of \<open>savedInsights\<close> (newest
  first). \<open>removeSavedInsight\<close> keeps exactly the insights whose id differs from the given
  one, in their order. When the ids of the list are pairwise distinct, removing the id of
  the insight just added gives back the list from before the addition.
\<close>

theorem saved_insights_add_remove:
  "savedInsights (addSavedInsight now isoNow insight state) =
     newInsight now isoNow insight # savedInsights state
   \<and> savedInsights (removeSavedInsight ident state) =
     filter (\<lambda>i. si_id i \<noteq> ident) (savedInsights state)
   \<and> set (savedInsights (removeSavedInsight ident state)) =
     {i \<in> set (savedInsights state). si_id i \<noteq> ident}
   \<and> subseq (savedInsights (removeSavedInsight ident state)) (savedInsights state)
   \<and> (distinct (map si_id (savedInsights (addSavedInsight now isoNow insight state))) \<longrightarrow>
        savedInsights (removeSavedInsight (si_id (newInsight now isoNow insight))
          (addSavedInsight now isoNow insight state)) = savedInsights state)"
proof -
  have rt: "savedInsights (removeSavedInsight (si_id (newInsight now isoNow insight))
          (addSavedInsight now isoNow insight state)) = savedInsights state"
    if "distinct (map si_id (savedInsights (addSavedInsight now isoNow insight state)))"
  proof -
    from that have "si_id (newInsight now isoNow insight) \<notin> si_id ` set (savedInsights state)"
      by (simp add: addSavedInsight_def)
    then show ?thesis
      by (simp add: removeSavedInsight_def addSavedInsight_def filter_ids_roundtrip)
  qed
  have sub: "subseq (savedInsights (removeSavedInsight ident state)) (savedInsights state)"
    by (simp add: removeSavedInsight_def)
  have st: "set (savedInsights (removeSavedInsight ident state)) =
     {i \<in> set (savedInsights state). si_id i \<noteq> ident}"
    by (auto simp: removeSavedInsight_def)
  from rt sub st show ?thesis
    by (simp add: addSavedInsight_def removeSavedInsight_def)
qed

definition example_insight :: SavedInsightInput where
  "example_insight =
     \<lparr>ii_videoId = ''v1'', ii_videoTitle = ''AI safety'', ii_query = ''risk?'',
      ii_answer = ''Risk mitigation.'', ii_sources = [], ii_factCheck = None\<rparr>"

theorem saved_insights_add_remove_witness:
  "distinct (map si_id (savedInsights (addSavedInsight 7 ''t2'' example_insight
      (addSavedInsight 5 ''t1'' example_insight initialState))))
   \<and> savedInsights (removeSavedInsight ''7'' (addSavedInsight 7 ''t2'' example_insight
      (addSavedInsight 5 ''t1'' example_insight initialState))) =
     savedInsights (addSavedInsight 5 ''t1'' example_insight initialState)"
proof -
  have ids: "distinct (map si_id (savedInsights (addSavedInsight 7 ''t2'' example_insight
      (addSavedInsight 5 ''t1'' example_insight initialState))))"
    by (simp add: addSavedInsight_def newInsight_def initialState_def show_nat.simps digit_char_def)
  have new_id: "si_id (newInsight 7 ''t2'' example_insight) = ''7''"
    by (simp add: newInsight_def show_nat.simps digit_char_def)
  from ids new_id saved_insights_add_remove [of 7 "''t2''" example_insight
      "addSavedInsight 5 ''t1'' example_insight initialState"]
  show ?thesis by simp
qed

section \<open>Timestamps in answers (client workspace page)\<close>

subsection \<open>The timestamp expression of renderAnswer\<close>

text \<open>
  The expression is
  \<^verbatim>\<open>\[(?:\s*)(?:(\d{1,2}):)?(\d{1,3}):(\d{1,2})(?:\s*)\]|\((?:\s*)(?:(\d{1,2}):)?(\d{1,3}):(\d{1,2})(?:\s*)\)\<close>
  with the flag \<open>g\<close>. Its backtracking matcher is a list of successes: every piece maps
  the rest of the input to the rests after each way of matching, the way the engine tries
  first at the head (greedy quantifiers take the longest repetition first). The first
  entry of the whole list is the engine's match.
\<close>

text \<open>
  \<open>\d\<close> matches the ten ASCII digits; \<open>\s\<close> matches white space and line terminators, of
  which tab, line feed, vertical tab, form feed, carriage return, space and the no-break
  space are code units below 256.
\<close>

definition is_digit :: "char \<Rightarrow> bool" where
  "is_digit c = (c \<in> set ''0123456789'')"

definition is_space :: "char \<Rightarrow> bool" where
  "is_space c = (c \<in> set [CHR 0x09, CHR 0x0A, CHR 0x0B, CHR 0x0C, CHR 0x0D, CHR 0x20, CHR 0xA0])"

definition digit_val :: "char \<Rightarrow> nat" where
  "digit_val c = length (takeWhile (\<lambda>d. d \<noteq> c) ''0123456789'')"

definition decimal :: "string \<Rightarrow> nat" where
  "decimal ds = foldl (\<lambda>a c. 10 * a + digit_val c) 0 ds"

fun digits_upto :: "nat \<Rightarrow> string \<Rightarrow> (string \<times> string) list" where
  "digits_upto 0 s = []"
| "digits_upto (Suc n) [] = []"
| "digits_upto (Suc n) (c # cs) =
     (if is_digit c then map (\<lambda>(d, r). (c # d, r)) (digits_upto n cs) @ [([c], cs)] else [])"

fun spaces_star :: "string \<Rightarrow> string list" where
  "spaces_star [] = [[]]"
| "spaces_star (c # cs) = (if is_space c then spaces_star cs @ [c # cs] else [c # cs])"

definition lit :: "char \<Rightarrow> string \<Rightarrow> string list" where
  "lit c s = (case s of [] \<Rightarrow> [] | x # xs \<Rightarrow> if x = c then [xs] else [])"

definition hours_group :: "string \<Rightarrow> (string option \<times> string) list" where
  "hours_group s =
     [(Some h, r'). (h, r) \<leftarrow> digits_upto 2 s, r' \<leftarrow> lit CHR '':'' r] @ [(None, s)]"

definition match_alt :: "char \<Rightarrow> char \<Rightarrow> string \<Rightarrow> ((string option \<times> string \<times> string) \<times> string) list" where
  "match_alt opn cls s =
     [((h, m, sec), s8).
        s1 \<leftarrow> lit opn s, s2 \<leftarrow> spaces_star s1, (h, s3) \<leftarrow> hours_group s2,
        (m, s4) \<leftarrow> digits_upto 3 s3, s5 \<leftarrow> lit CHR '':'' s4,
        (sec, s6) \<leftarrow> digits_upto 2 s5, s7 \<leftarrow> spaces_star s6, s8 \<leftarrow> lit cls s7]"


text \<open>The six capture groups of the expression, \<open>None\<close> for \<open>undefined\<close>.\<close>

record rgroups =
  g1 :: "string option"
  g2 :: "string option"
  g3 :: "string option"
  g4 :: "string option"
  g5 :: "string option"
  g6 :: "string option"

record rmatch =
  rm_index :: nat
  rm_lastIndex :: nat
  rm_groups :: rgroups

definition bracket_groups :: "(string option \<times> string \<times> string) \<Rightarrow> rgroups" where
  "bracket_groups c = (case c of (h, m, sec) \<Rightarrow>
     \<lparr>g1 = h, g2 = Some m, g3 = Some sec, g4 = None, g5 = None, g6 = None\<rparr>)"

definition paren_groups :: "(string option \<times> string \<times> string) \<Rightarrow> rgroups" where
  "paren_groups c = (case c of (h, m, sec) \<Rightarrow>
     \<lparr>g1 = None, g2 = None, g3 = None, g4 = h, g5 = Some m, g6 = Some sec\<rparr>)"

definition match_here :: "string \<Rightarrow> (rgroups \<times> string) option" where
  "match_here s =
     (case map (\<lambda>(c, r). (bracket_groups c, r)) (match_alt CHR ''['' CHR '']'' s) @
           map (\<lambda>(c, r). (paren_groups c, r)) (match_alt CHR ''('' CHR '')'' s) of
        [] \<Rightarrow> None
      | x # _ \<Rightarrow> Some x)"

fun exec_scan :: "nat \<Rightarrow> string \<Rightarrow> rmatch option" where
  "exec_scan i [] =
     (case match_here [] of
        Some (g, rest) \<Rightarrow>
          Some \<lparr>rm_index = i, rm_lastIndex = i + (length ([] :: string) - length rest), rm_groups = g\<rparr>
      | None \<Rightarrow> None)"
| "exec_scan i (c # cs) =
     (case match_here (c # cs) of
        Some (g, rest) \<Rightarrow>
          Some \<lparr>rm_index = i, rm_lastIndex = i + (length (c # cs) - length rest), rm_groups = g\<rparr>
      | None \<Rightarrow> exec_scan (Suc i) cs)"

definition regex_exec :: "string \<Rightarrow> nat \<Rightarrow> rmatch option" where
  "regex_exec text lastIndex =
     (if lastIndex > length text then None else exec_scan lastIndex (drop lastIndex text))"

subsection \<open>Numbers of renderAnswer\<close>

text \<open>
  The numbers of \<open>renderAnswer\<close> are integers or NaN: \<^typ>\<open>int option\<close>, \<open>None\<close> for NaN.
\<close>

definition parseInt10 :: "string option \<Rightarrow> int option" where
  "parseInt10 arg =
     (case arg of
        None \<Rightarrow> None
      | Some s \<Rightarrow>
          (let s1 = dropWhile is_space s;
               neg = (s1 \<noteq> [] \<and> hd s1 = CHR ''-'');
               s2 = (if s1 \<noteq> [] \<and> (hd s1 = CHR ''-'' \<or> hd s1 = CHR ''+'') then tl s1 else s1);
               ds = takeWhile is_digit s2
           in if ds = [] then None
              else Some ((if neg then - 1 else 1) * int (decimal ds))))"

definition show_num :: "int option \<Rightarrow> string" where
  "show_num n =
     (case n of
        None \<Rightarrow> ''NaN''
      | Some i \<Rightarrow> if i < 0 then CHR ''-'' # show_nat (nat (- i)) else show_nat (nat i))"

definition padStart :: "nat \<Rightarrow> char \<Rightarrow> string \<Rightarrow> string" where
  "padStart n c s = replicate (n - length s) c @ s"

definition pad2 :: "int option \<Rightarrow> string" where
  "pad2 n = padStart 2 CHR ''0'' (show_num n)"

definition num_add :: "int option \<Rightarrow> int option \<Rightarrow> int option" where
  "num_add a b = (case a of None \<Rightarrow> None | Some x \<Rightarrow> (case b of None \<Rightarrow> None | Some y \<Rightarrow> Some (x + y)))"

definition num_mul :: "int option \<Rightarrow> int \<Rightarrow> int option" where
  "num_mul a k = (case a of None \<Rightarrow> None | Some x \<Rightarrow> Some (x * k))"

definition num_ge :: "int option \<Rightarrow> int \<Rightarrow> bool" where
  "num_ge a k = (case a of None \<Rightarrow> False | Some x \<Rightarrow> x \<ge> k)"

definition num_gt :: "int option \<Rightarrow> int \<Rightarrow> bool" where
  "num_gt a k = (case a of None \<Rightarrow> False | Some x \<Rightarrow> x > k)"

definition num_floor_div :: "int option \<Rightarrow> int \<Rightarrow> int option" where
  "num_floor_div a k = (case a of None \<Rightarrow> None | Some x \<Rightarrow> Some (x div k))"

definition num_rem :: "int option \<Rightarrow> int \<Rightarrow> int option" where
  "num_rem a k = (case a of None \<Rightarrow> None | Some x \<Rightarrow> Some (if x \<ge> 0 then x mod k else - ((- x) mod k)))"

definition truthy :: "string option \<Rightarrow> bool" where
  "truthy s = (s \<noteq> None \<and> s \<noteq> Some [])"

definition nullish_or :: "'a option \<Rightarrow> 'a option \<Rightarrow> 'a option" where
  "nullish_or a b = (case a of None \<Rightarrow> b | Some x \<Rightarrow> Some x)"

datatype part = Text string | Link nat string "int option"

definition link_of_match :: "rmatch \<Rightarrow> part" where
  "link_of_match m =
     (let hoursRaw = nullish_or (g1 (rm_groups m)) (g4 (rm_groups m));
          minutesRaw = nullish_or (g2 (rm_groups m)) (g5 (rm_groups m));
          secondsRaw = nullish_or (g3 (rm_groups m)) (g6 (rm_groups m));
          startIndex = rm_index m;
          hours0 = (if truthy hoursRaw then parseInt10 hoursRaw else Some 0);
          minutes0 = parseInt10 minutesRaw;
          seconds = parseInt10 secondsRaw;
          normalise = (\<not> truthy hoursRaw \<and> num_ge minutes0 60);
          hours = (if normalise then num_floor_div minutes0 60 else hours0);
          minutes = (if normalise then num_rem minutes0 60 else minutes0);
          totalSeconds = num_add (num_add (num_mul hours 3600) (num_mul minutes 60)) seconds;
          label = (if num_gt hours 0
                   then ''['' @ show_num hours @ '':'' @ pad2 minutes @ '':'' @ pad2 seconds @ '']''
                   else ''['' @ show_num minutes @ '':'' @ pad2 seconds @ '']'')
      in Link startIndex label totalSeconds)"

definition slice :: "string \<Rightarrow> nat \<Rightarrow> nat \<Rightarrow> string" where
  "slice text a b = take (b - a) (drop a text)"


subsection \<open>What a match looks like\<close>

definition all_digits :: "string \<Rightarrow> bool" where
  "all_digits ds = (ds \<noteq> [] \<and> (\<forall>c \<in> set ds. is_digit c))"

definition hour_text :: "string option \<Rightarrow> string" where
  "hour_text h = (case h of None \<Rightarrow> [] | Some hs \<Rightarrow> hs @ '':'')"

definition hours_value :: "string option \<Rightarrow> nat" where
  "hours_value h = (case h of None \<Rightarrow> 0 | Some hs \<Rightarrow> decimal hs)"

text \<open>
  \<open>timestamp_token tok h m s\<close>: \<open>tok\<close> is \<open>[h:m:s]\<close>, \<open>(h:m:s)\<close>, \<open>[m:s]\<close> or \<open>(m:s)\<close>
  (the last two when \<open>h = None\<close>), with optional white space inside the brackets, one or
  two digits of hours, one to three of minutes and one or two of seconds.
\<close>

definition timestamp_token :: "string \<Rightarrow> string option \<Rightarrow> string \<Rightarrow> string \<Rightarrow> bool" where
  "timestamp_token tok h m s =
     (\<exists>opn cls w1 w2.
        (opn = CHR ''['' \<and> cls = CHR '']'' \<or> opn = CHR ''('' \<and> cls = CHR '')'')
      \<and> tok = opn # w1 @ hour_text h @ m @ '':'' @ s @ w2 @ [cls]
      \<and> (\<forall>c \<in> set w1. is_space c) \<and> (\<forall>c \<in> set w2. is_space c)
      \<and> (case h of None \<Rightarrow> True | Some hs \<Rightarrow> all_digits hs \<and> length hs \<le> 2)
      \<and> all_digits m \<and> length m \<le> 3 \<and> all_digits s \<and> length s \<le> 2)"

lemma digits_upto_sound:
  "(d, r) \<in> set (digits_upto n s) \<Longrightarrow> s = d @ r \<and> all_digits d \<and> length d \<le> n"
proof (induction n s arbitrary: d r rule: digits_upto.induct)
  case (1 s)
  then show ?case by simp
next
  case (2 n)
  then show ?case by simp
next
  case (3 n c cs)
  show ?case
  proof (cases "is_digit c")
    case True
    with "3.prems" consider "d = [c] \<and> r = cs"
      | d' where "d = c # d'" "(d', r) \<in> set (digits_upto n cs)"
      by auto
    then show ?thesis
    proof cases
      case 1
      with True show ?thesis by (simp add: all_digits_def)
    next
      case 2
      with "3.IH" [OF True, of d' r] True show ?thesis by (simp add: all_digits_def)
    qed
  next
    case False
    with "3.prems" show ?thesis by simp
  qed
qed

lemma spaces_star_sound:
  "r \<in> set (spaces_star s) \<Longrightarrow> \<exists>w. s = w @ r \<and> (\<forall>c \<in> set w. is_space c)"
proof (induction s)
  case Nil
  then show ?case by simp
next
  case (Cons c cs)
  show ?case
  proof (cases "r = c # cs")
    case True
    then show ?thesis by simp
  next
    case False
    with Cons.prems have sp: "is_space c" and "r \<in> set (spaces_star cs)"
      by (auto split: if_splits)
    with Cons.IH obtain w where "cs = w @ r" "\<forall>c \<in> set w. is_space c" by blast
    with sp have "c # cs = (c # w) @ r \<and> (\<forall>x \<in> set (c # w). is_space x)" by simp
    then show ?thesis by blast
  qed
qed

lemma lit_sound: "r \<in> set (lit c s) \<Longrightarrow> s = c # r"
  by (auto simp: lit_def split: list.splits if_splits)

lemma hours_group_sound:
  "(h, r) \<in> set (hours_group s) \<Longrightarrow>
     s = hour_text h @ r \<and> (case h of None \<Rightarrow> True | Some hs \<Rightarrow> all_digits hs \<and> length hs \<le> 2)"
  by (auto simp: hours_group_def hour_text_def dest!: digits_upto_sound lit_sound)

lemma match_alt_sound:
  assumes "((h, m, sec), r) \<in> set (match_alt opn cls s)"
  shows "\<exists>w1 w2. s = (opn # w1 @ hour_text h @ m @ '':'' @ sec @ w2 @ [cls]) @ r
      \<and> (\<forall>c \<in> set w1. is_space c) \<and> (\<forall>c \<in> set w2. is_space c)
      \<and> (case h of None \<Rightarrow> True | Some hs \<Rightarrow> all_digits hs \<and> length hs \<le> 2)
      \<and> all_digits m \<and> length m \<le> 3 \<and> all_digits sec \<and> length sec \<le> 2"
proof -
  from assms obtain s1 s2 s3 s4 s5 s6 s7 where
    a: "s1 \<in> set (lit opn s)" "s2 \<in> set (spaces_star s1)" "(h, s3) \<in> set (hours_group s2)"
       "(m, s4) \<in> set (digits_upto 3 s3)" "s5 \<in> set (lit CHR '':'' s4)"
       "(sec, s6) \<in> set (digits_upto 2 s5)" "s7 \<in> set (spaces_star s6)" "r \<in> set (lit cls s7)"
    by (auto simp: match_alt_def)
  from a(2) obtain w1 where w1: "s1 = w1 @ s2" "\<forall>c \<in> set w1. is_space c"
    using spaces_star_sound by blast
  from a(7) obtain w2 where w2: "s6 = w2 @ s7" "\<forall>c \<in> set w2. is_space c"
    using spaces_star_sound by blast
  from lit_sound [OF a(1)] lit_sound [OF a(5)] lit_sound [OF a(8)]
    hours_group_sound [OF a(3)] digits_upto_sound [OF a(4)] digits_upto_sound [OF a(6)] w1 w2
  have "s = (opn # w1 @ hour_text h @ m @ '':'' @ sec @ w2 @ [cls]) @ r
      \<and> (\<forall>c \<in> set w1. is_space c) \<and> (\<forall>c \<in> set w2. is_space c)
      \<and> (case h of None \<Rightarrow> True | Some hs \<Rightarrow> all_digits hs \<and> length hs \<le> 2)
      \<and> all_digits m \<and> length m \<le> 3 \<and> all_digits sec \<and> length sec \<le> 2"
    by simp
  then show ?thesis by blast
qed

text \<open>The captures of a match, read as the source reads them.\<close>

definition hoursRaw_of :: "rgroups \<Rightarrow> string option" where
  "hoursRaw_of g = nullish_or (g1 g) (g4 g)"

definition minutesRaw_of :: "rgroups \<Rightarrow> string option" where
  "minutesRaw_of g = nullish_or (g2 g) (g5 g)"

definition secondsRaw_of :: "rgroups \<Rightarrow> string option" where
  "secondsRaw_of g = nullish_or (g3 g) (g6 g)"

lemma match_here_sound:
  assumes "match_here s = Some (g, r)"
  shows "\<exists>tok m sec. s = tok @ r \<and> minutesRaw_of g = Some m \<and> secondsRaw_of g = Some sec
           \<and> timestamp_token tok (hoursRaw_of g) m sec"
proof -
  let ?A = "map (\<lambda>(c, r). (bracket_groups c, r)) (match_alt CHR ''['' CHR '']'' s)"
  let ?B = "map (\<lambda>(c, r). (paren_groups c, r)) (match_alt CHR ''('' CHR '')'' s)"
  from assms obtain xs where "?A @ ?B = (g, r) # xs"
    by (auto simp: match_here_def split: list.splits)
  then have "(g, r) \<in> set (?A @ ?B)"
    by (metis list.set_intros(1))
  then consider h m sec where "((h, m, sec), r) \<in> set (match_alt CHR ''['' CHR '']'' s)"
      "g = bracket_groups (h, m, sec)"
    | h m sec where "((h, m, sec), r) \<in> set (match_alt CHR ''('' CHR '')'' s)"
      "g = paren_groups (h, m, sec)"
    by auto
  then show ?thesis
  proof cases
    case 1
    from match_alt_sound [OF 1(1)] obtain w1 w2 where
      "s = (CHR ''['' # w1 @ hour_text h @ m @ '':'' @ sec @ w2 @ '']'') @ r"
      "\<forall>c \<in> set w1. is_space c" "\<forall>c \<in> set w2. is_space c"
      "case h of None \<Rightarrow> True | Some hs \<Rightarrow> all_digits hs \<and> length hs \<le> 2"
      "all_digits m" "length m \<le> 3" "all_digits sec" "length sec \<le> 2"
      by blast
    moreover from 1(2) have "hoursRaw_of g = h" "minutesRaw_of g = Some m" "secondsRaw_of g = Some sec"
      by (auto simp: bracket_groups_def hoursRaw_of_def minutesRaw_of_def secondsRaw_of_def
          nullish_or_def split: option.splits)
    ultimately show ?thesis
      unfolding timestamp_token_def by blast
  next
    case 2
    from match_alt_sound [OF 2(1)] obtain w1 w2 where
      "s = (CHR ''('' # w1 @ hour_text h @ m @ '':'' @ sec @ w2 @ '')'') @ r"
      "\<forall>c \<in> set w1. is_space c" "\<forall>c \<in> set w2. is_space c"
      "case h of None \<Rightarrow> True | Some hs \<Rightarrow> all_digits hs \<and> length hs \<le> 2"
      "all_digits m" "length m \<le> 3" "all_digits sec" "length sec \<le> 2"
      by blast
    moreover from 2(2) have "hoursRaw_of g = h" "minutesRaw_of g = Some m" "secondsRaw_of g = Some sec"
      by (auto simp: paren_groups_def hoursRaw_of_def minutesRaw_of_def secondsRaw_of_def
          nullish_or_def split: option.splits)
    ultimately show ?thesis
      unfolding timestamp_token_def by blast
  qed
qed

lemma all_digits_length: "all_digits ds \<Longrightarrow> 1 \<le> length ds"
  by (cases ds) (auto simp: all_digits_def)

lemma timestamp_token_length:
  assumes "timestamp_token tok h m s"
  shows "5 \<le> length tok"
proof -
  from assms obtain opn cls w1 w2 where
    tok: "tok = opn # w1 @ hour_text h @ m @ '':'' @ s @ w2 @ [cls]"
    and "all_digits m" "all_digits s"
    unfolding timestamp_token_def by blast
  then have "1 \<le> length m" "1 \<le> length s"
    using all_digits_length by blast+
  with tok show ?thesis by simp
qed


lemma exec_scan_sound:
  "exec_scan i s = Some m \<Longrightarrow>
     \<exists>k g r. k \<le> length s \<and> rm_index m = i + k \<and> rm_groups m = g
       \<and> match_here (drop k s) = Some (g, r)
       \<and> rm_lastIndex m = i + k + (length (drop k s) - length r)"
proof (induction i s rule: exec_scan.induct)
  case (1 i)
  then show ?case
    by (cases "match_here []") auto
next
  case (2 i c cs)
  show ?case
  proof (cases "match_here (c # cs)")
    case None
    with "2.prems" have "exec_scan (Suc i) cs = Some m" by simp
    with "2.IH" [OF None] obtain k g r where
      "k \<le> length cs" "rm_index m = Suc i + k" "rm_groups m = g"
      "match_here (drop k cs) = Some (g, r)"
      "rm_lastIndex m = Suc i + k + (length (drop k cs) - length r)"
      by blast
    then have "Suc k \<le> length (c # cs) \<and> rm_index m = i + Suc k \<and> rm_groups m = g
       \<and> match_here (drop (Suc k) (c # cs)) = Some (g, r)
       \<and> rm_lastIndex m = i + Suc k + (length (drop (Suc k) (c # cs)) - length r)"
      by simp
    then show ?thesis by blast
  next
    case (Some a)
    obtain g r where a: "a = (g, r)" by (cases a)
    with Some "2.prems" have
      "0 \<le> length (c # cs) \<and> rm_index m = i + 0 \<and> rm_groups m = g
       \<and> match_here (drop 0 (c # cs)) = Some (g, r)
       \<and> rm_lastIndex m = i + 0 + (length (drop 0 (c # cs)) - length r)"
      by auto
    then show ?thesis by blast
  qed
qed

text \<open>
  A match found by \<open>regex.exec\<close> from \<open>lastIndex\<close>: it starts at \<open>rm_index\<close>, at or after
  \<open>lastIndex\<close>, its text is a timestamp token that ends at \<open>rm_lastIndex\<close>, and the captures
  are the token's digit groups.
\<close>

lemma regex_exec_sound:
  assumes "regex_exec text lastIndex = Some m"
  shows "\<exists>tok mins secs.
           lastIndex \<le> rm_index m \<and> rm_lastIndex m = rm_index m + length tok
         \<and> rm_lastIndex m \<le> length text
         \<and> slice text (rm_index m) (rm_lastIndex m) = tok
         \<and> minutesRaw_of (rm_groups m) = Some mins \<and> secondsRaw_of (rm_groups m) = Some secs
         \<and> timestamp_token tok (hoursRaw_of (rm_groups m)) mins secs"
proof -
  from assms have le: "lastIndex \<le> length text"
    and sc: "exec_scan lastIndex (drop lastIndex text) = Some m"
    by (auto simp: regex_exec_def split: if_splits)
  from exec_scan_sound [OF sc] obtain k r where
    k: "k \<le> length (drop lastIndex text)" "rm_index m = lastIndex + k"
    and mh: "match_here (drop k (drop lastIndex text)) = Some (rm_groups m, r)"
    and li: "rm_lastIndex m = lastIndex + k + (length (drop k (drop lastIndex text)) - length r)"
    by blast
  from match_here_sound [OF mh] obtain tok mins secs where
    t: "drop k (drop lastIndex text) = tok @ r"
    "minutesRaw_of (rm_groups m) = Some mins" "secondsRaw_of (rm_groups m) = Some secs"
    "timestamp_token tok (hoursRaw_of (rm_groups m)) mins secs"
    by blast
  from t(1) k(2) have d: "drop (rm_index m) text = tok @ r"
    by (simp add: add.commute)
  from t(1) li k(2) have e: "rm_lastIndex m = rm_index m + length tok" by simp
  from d have "length text - rm_index m = length tok + length r"
    by (metis length_append length_drop)
  with e k le have b: "rm_lastIndex m \<le> length text" by simp
  from d e have "slice text (rm_index m) (rm_lastIndex m) = tok"
    by (simp add: slice_def)
  with k(2) e b t show ?thesis by auto
qed

lemma regex_exec_progress:
  assumes "regex_exec text lastIndex = Some m"
  shows "lastIndex < rm_lastIndex m \<and> rm_lastIndex m \<le> length text"
proof -
  from regex_exec_sound [OF assms] obtain tok mins secs where
    "lastIndex \<le> rm_index m" "rm_lastIndex m = rm_index m + length tok"
    "rm_lastIndex m \<le> length text"
    "timestamp_token tok (hoursRaw_of (rm_groups m)) mins secs"
    by blast
  with timestamp_token_length [of tok] show ?thesis by fastforce
qed

subsection \<open>renderAnswer\<close>

function render_loop :: "string \<Rightarrow> nat \<Rightarrow> part list \<Rightarrow> nat \<times> part list" where
  "render_loop text lastIndex parts =
     (case regex_exec text lastIndex of
        None \<Rightarrow> (lastIndex, parts)
      | Some m \<Rightarrow>
          render_loop text (rm_lastIndex m)
            (parts @
             (if rm_index m > lastIndex then [Text (slice text lastIndex (rm_index m))] else []) @
             [link_of_match m]))"
  by pat_completeness auto
termination
proof (relation "measure (\<lambda>(text, lastIndex, parts). Suc (length text) - lastIndex)")
  show "wf (measure (\<lambda>(text, lastIndex, parts). Suc (length text) - lastIndex))" by simp
next
  fix t :: string and lastIndex :: nat and parts :: "part list" and m :: rmatch
  assume "regex_exec t lastIndex = Some m"
  from regex_exec_progress [OF this]
  show "((t, rm_lastIndex m,
          parts @ (if lastIndex < rm_index m then [Text (slice t lastIndex (rm_index m))] else []) @
          [link_of_match m]),
         (t, lastIndex, parts))
        \<in> measure (\<lambda>(text, lastIndex, parts). Suc (length text) - lastIndex)"
    by (simp add: diff_less_mono2 less_Suc_eq_le)
qed

declare render_loop.simps [simp del]

definition renderAnswer :: "string \<Rightarrow> part list" where
  "renderAnswer text =
     (case render_loop text 0 [] of
        (lastIndex, parts) \<Rightarrow>
          if lastIndex < length text then parts @ [Text (drop lastIndex text)] else parts)"


subsection \<open>jumpToTimestamp (client workspace page)\<close>

datatype js_number = NaN | NegInf | PosInf | Fin real

definition js_lt0 :: "js_number \<Rightarrow> bool" where
  "js_lt0 x = (case x of NaN \<Rightarrow> False | NegInf \<Rightarrow> True | PosInf \<Rightarrow> False | Fin r \<Rightarrow> r < 0)"

definition isNaN :: "js_number \<Rightarrow> bool" where
  "isNaN x = (x = NaN)"

definition to_number :: "int option \<Rightarrow> js_number" where
  "to_number n = (case n of None \<Rightarrow> NaN | Some i \<Rightarrow> Fin (real_of_int i))"

text \<open>
  The player behind \<open>playerRef.current\<close>: whether \<open>seekTo\<close> is a function, whether calling it
  throws, and the calls of \<open>seekTo\<close> made so far.
\<close>

record Player =
  has_seekTo :: bool
  seekTo_throws :: bool
  seekTo_calls :: "(js_number \<times> string) list"

text \<open>
  The state \<open>jumpToTimestamp\<close> works on. A timeout is its delay, the value of
  \<open>playerReady\<close> its callback closed over, and the timestamp.
\<close>

record SeekState =
  playerRef :: "Player option"
  playerReady :: bool
  pendingSeek :: "js_number option"
  timeouts :: "(nat \<times> bool \<times> js_number) list"

definition trySeek :: "js_number \<Rightarrow> SeekState \<Rightarrow> bool \<times> SeekState" where
  "trySeek timestamp st =
     (case playerRef st of
        None \<Rightarrow> (False, st)
      | Some p \<Rightarrow>
          if has_seekTo p
          then (let st' = st\<lparr>playerRef :=
                        Some (p\<lparr>seekTo_calls := seekTo_calls p @ [(timestamp, ''seconds'')]\<rparr>)\<rparr>
                in if seekTo_throws p then (False, st') else (True, st'))
          else (False, st))"

definition jumpToTimestamp :: "js_number \<Rightarrow> SeekState \<Rightarrow> SeekState" where
  "jumpToTimestamp timestamp st =
     (if js_lt0 timestamp \<or> isNaN timestamp then st
      else if playerReady st
      then (case trySeek timestamp st of
              (ok, st') \<Rightarrow> if \<not> ok then st'\<lparr>pendingSeek := Some timestamp\<rparr> else st')
      else st\<lparr>pendingSeek := Some timestamp,
              timeouts := timeouts st @ [(500, playerReady st, timestamp)]\<rparr>)"

definition run_timeout :: "nat \<times> bool \<times> js_number \<Rightarrow> SeekState \<Rightarrow> SeekState" where
  "run_timeout t st = (case t of (delay, ready, timestamp) \<Rightarrow>
     if ready then snd (trySeek timestamp st) else st)"

subsection \<open>Properties of renderAnswer\<close>

lemma is_digit_cases:
  "is_digit c \<Longrightarrow> \<not> is_space c \<and> c \<noteq> CHR ''-'' \<and> c \<noteq> CHR ''+''"
  by (auto simp: is_digit_def is_space_def)

lemma parseInt10_digits:
  assumes "all_digits ds"
  shows "parseInt10 (Some ds) = Some (int (decimal ds))"
proof -
  from assms obtain c cs where ds: "ds = c # cs" and c: "is_digit c"
    by (cases ds) (auto simp: all_digits_def)
  from assms have tw: "takeWhile is_digit ds = ds"
    by (simp add: all_digits_def)
  from ds c is_digit_cases [OF c] have dw: "dropWhile is_space ds = ds" by simp
  from ds is_digit_cases [OF c] have hd: "hd ds \<noteq> CHR ''-''" "hd ds \<noteq> CHR ''+''" by simp_all
  from ds have ne: "ds \<noteq> []" by simp
  show ?thesis
    by (simp add: parseInt10_def Let_def dw hd tw ne)
qed

lemma truthy_digits: "all_digits ds \<Longrightarrow> truthy (Some ds)"
  by (simp add: truthy_def all_digits_def)

lemma div_mod_seconds: "(m::int) div 60 * 3600 + m mod 60 * 60 = m * 60"
  by presburger

text \<open>The link computed from the captures of a timestamp token.\<close>

lemma link_of_match_token:
  assumes h: "hoursRaw_of (rm_groups m) = h"
    and hd: "case h of None \<Rightarrow> True | Some hs \<Rightarrow> all_digits hs"
    and mi: "minutesRaw_of (rm_groups m) = Some mins" "all_digits mins"
    and se: "secondsRaw_of (rm_groups m) = Some secs" "all_digits secs"
  shows "\<exists>label. link_of_match m =
           Link (rm_index m) label
             (Some (int (hours_value h * 3600 + decimal mins * 60 + decimal secs)))
         \<and> (h = None \<and> 60 \<le> decimal mins \<longrightarrow>
              label = ''['' @ show_nat (decimal mins div 60) @ '':'' @
                      padStart 2 CHR ''0'' (show_nat (decimal mins mod 60)) @ '':'' @
                      padStart 2 CHR ''0'' (show_nat (decimal secs)) @ '']'')"
proof (cases h)
  case None
  with h have raw: "nullish_or (g1 (rm_groups m)) (g4 (rm_groups m)) = None"
    by (simp add: hoursRaw_of_def)
  from mi have mraw: "nullish_or (g2 (rm_groups m)) (g5 (rm_groups m)) = Some mins"
    by (simp add: minutesRaw_of_def)
  from se have sraw: "nullish_or (g3 (rm_groups m)) (g6 (rm_groups m)) = Some secs"
    by (simp add: secondsRaw_of_def)
  show ?thesis
  proof (cases "60 \<le> decimal mins")
    case True
    then have pos: "0 < int (decimal mins) div 60" by (simp add: pos_imp_zdiv_pos_iff)
    have dv: "nat (int (decimal mins) div 60) = decimal mins div 60"
      by (simp add: zdiv_int [symmetric])
    have md: "nat (int (decimal mins) mod 60) = decimal mins mod 60"
      by (simp add: nat_mod_distrib)
    have nn: "\<not> int (decimal mins) mod 60 < 0" by simp
    from True pos None nn show ?thesis
      using div_mod_seconds [of "int (decimal mins)"]
      by (simp add: link_of_match_def Let_def raw mraw sraw truthy_def hours_value_def
          parseInt10_digits [OF mi(2)] parseInt10_digits [OF se(2)]
          num_ge_def num_gt_def num_floor_div_def num_rem_def num_add_def num_mul_def
          show_num_def pad2_def dv md)
  next
    case False
    with None show ?thesis
      by (simp add: link_of_match_def Let_def raw mraw sraw truthy_def hours_value_def
          parseInt10_digits [OF mi(2)] parseInt10_digits [OF se(2)]
          num_ge_def num_add_def num_mul_def)
  qed
next
  case (Some hs)
  with h have raw: "nullish_or (g1 (rm_groups m)) (g4 (rm_groups m)) = Some hs"
    by (simp add: hoursRaw_of_def)
  from mi have mraw: "nullish_or (g2 (rm_groups m)) (g5 (rm_groups m)) = Some mins"
    by (simp add: minutesRaw_of_def)
  from se have sraw: "nullish_or (g3 (rm_groups m)) (g6 (rm_groups m)) = Some secs"
    by (simp add: secondsRaw_of_def)
  from Some hd have hs: "all_digits hs" by simp
  from Some show ?thesis
    by (simp add: link_of_match_def Let_def raw mraw sraw truthy_digits [OF hs] hours_value_def
        parseInt10_digits [OF hs] parseInt10_digits [OF mi(2)] parseInt10_digits [OF se(2)]
        num_add_def num_mul_def)
qed

lemma render_loop_links:
  "Link i l t \<in> set (snd (render_loop str k parts)) \<Longrightarrow>
     Link i l t \<in> set parts \<or>
     (\<exists>j m. regex_exec str j = Some m \<and> link_of_match m = Link i l t)"
proof (induction str k parts rule: render_loop.induct)
  case (1 str lastIndex parts)
  show ?case
  proof (cases "regex_exec str lastIndex")
    case None
    with "1.prems" show ?thesis by (simp add: render_loop.simps)
  next
    case (Some m)
    let ?parts = "parts @
             (if rm_index m > lastIndex then [Text (slice str lastIndex (rm_index m))] else []) @
             [link_of_match m]"
    from Some "1.prems" have "Link i l t \<in> set (snd (render_loop str (rm_lastIndex m) ?parts))"
      by (simp add: render_loop.simps)
    from "1.IH" [OF Some this]
    have "Link i l t \<in> set ?parts \<or>
          (\<exists>j m. regex_exec str j = Some m \<and> link_of_match m = Link i l t)" .
    moreover have "Link i l t \<in> set parts \<or> link_of_match m = Link i l t"
      if "Link i l t \<in> set ?parts"
      using that by (auto split: if_splits)
    ultimately show ?thesis using Some by blast
  qed
qed

lemma renderAnswer_links:
  assumes "Link i l t \<in> set (renderAnswer text)"
  shows "\<exists>j m. regex_exec text j = Some m \<and> link_of_match m = Link i l t"
proof -
  obtain k parts where r: "render_loop text 0 [] = (k, parts)"
    by (cases "render_loop text 0 []")
  with assms have "Link i l t \<in> set (snd (render_loop text 0 []))"
    by (auto simp: renderAnswer_def split: if_splits)
  from render_loop_links [OF this] show ?thesis by simp
qed

text \<open>
  C10. Every link that \<open>renderAnswer\<close> renders comes from a timestamp token \<open>[H:MM:SS]\<close>,
  \<open>(H:MM:SS)\<close>, \<open>[M:SS]\<close> or \<open>(M:SS)\<close> of the answer, found at the link's start index,
  and its seek position is \<open>H * 3600 + M * 60 + S\<close> (\<open>H = 0\<close> without an hours part).
  Without an hours part and with \<open>M \<ge> 60\<close> the label shows the hours \<open>M div 60\<close> and the
  minutes \<open>M mod 60\<close>. \<open>jumpToTimestamp\<close> on a negative or NaN timestamp changes nothing:
  it makes no \<open>seekTo\<close> call, sets no pending seek and starts no timeout.
\<close>

theorem renderAnswer_timestamps:
  "(Link idx label tot \<in> set (renderAnswer str) \<longrightarrow>
      (\<exists>tok h m s.
          timestamp_token tok h m s
        \<and> take (length tok) (drop idx str) = tok
        \<and> tot = Some (int (hours_value h * 3600 + decimal m * 60 + decimal s))
        \<and> (h = None \<and> 60 \<le> decimal m \<longrightarrow>
             label = ''['' @ show_nat (decimal m div 60) @ '':'' @
                     padStart 2 CHR ''0'' (show_nat (decimal m mod 60)) @ '':'' @
                     padStart 2 CHR ''0'' (show_nat (decimal s)) @ '']'')))
   \<and> (js_lt0 timestamp \<or> isNaN timestamp \<longrightarrow> jumpToTimestamp timestamp st = st)"
proof -
  have links: "\<exists>tok h m s.
          timestamp_token tok h m s
        \<and> take (length tok) (drop idx str) = tok
        \<and> tot = Some (int (hours_value h * 3600 + decimal m * 60 + decimal s))
        \<and> (h = None \<and> 60 \<le> decimal m \<longrightarrow>
             label = ''['' @ show_nat (decimal m div 60) @ '':'' @
                     padStart 2 CHR ''0'' (show_nat (decimal m mod 60)) @ '':'' @
                     padStart 2 CHR ''0'' (show_nat (decimal s)) @ '']'')"
    if "Link idx label tot \<in> set (renderAnswer str)"
  proof -
    from renderAnswer_links [OF that] obtain j rm where
      ex: "regex_exec str j = Some rm" and lk: "link_of_match rm = Link idx label tot"
      by blast
    from regex_exec_sound [OF ex] obtain tok mins secs where
      t: "rm_lastIndex rm = rm_index rm + length tok"
      "slice str (rm_index rm) (rm_lastIndex rm) = tok"
      "minutesRaw_of (rm_groups rm) = Some mins" "secondsRaw_of (rm_groups rm) = Some secs"
      "timestamp_token tok (hoursRaw_of (rm_groups rm)) mins secs"
      by blast
    from t(5) have d: "case hoursRaw_of (rm_groups rm) of None \<Rightarrow> True | Some hs \<Rightarrow> all_digits hs"
      "all_digits mins" "all_digits secs"
      by (auto simp: timestamp_token_def split: option.splits)
    from link_of_match_token [OF refl d(1) t(3) d(2) t(4) d(3)] lk
    have "idx = rm_index rm"
      "tot = Some (int (hours_value (hoursRaw_of (rm_groups rm)) * 3600 + decimal mins * 60 + decimal secs))"
      "hoursRaw_of (rm_groups rm) = None \<and> 60 \<le> decimal mins \<longrightarrow>
         label = ''['' @ show_nat (decimal mins div 60) @ '':'' @
                 padStart 2 CHR ''0'' (show_nat (decimal mins mod 60)) @ '':'' @
                 padStart 2 CHR ''0'' (show_nat (decimal secs)) @ '']''"
      by auto
    moreover from t(1,2) \<open>idx = rm_index rm\<close> have "take (length tok) (drop idx str) = tok"
      by (simp add: slice_def)
    ultimately show ?thesis using t(5) by blast
  qed
  have jump: "jumpToTimestamp timestamp st = st" if "js_lt0 timestamp \<or> isNaN timestamp"
    using that by (simp add: jumpToTimestamp_def)
  from links jump show ?thesis by blast
qed

definition example_seek_state :: SeekState where
  "example_seek_state =
     \<lparr>playerRef = Some \<lparr>has_seekTo = True, seekTo_throws = False, seekTo_calls = []\<rparr>,
      playerReady = True, pendingSeek = None, timeouts = []\<rparr>"

lemma renderAnswer_example:
  "renderAnswer ''at [75:30] ok ( 1:02:03 ) end'' =
     [Text ''at '', Link 3 ''[1:15:30]'' (Some 4530), Text '' ok '',
      Link 14 ''[1:02:03]'' (Some 3723), Text '' end'']"
  by code_simp

theorem renderAnswer_timestamps_witness:
  "Link 3 ''[1:15:30]'' (Some 4530) \<in> set (renderAnswer ''at [75:30] ok ( 1:02:03 ) end'')
   \<and> (\<exists>tok h m s.
          timestamp_token tok h m s
        \<and> take (length tok) (drop 3 ''at [75:30] ok ( 1:02:03 ) end'') = tok
        \<and> Some (4530::int) = Some (int (hours_value h * 3600 + decimal m * 60 + decimal s))
        \<and> (h = None \<and> 60 \<le> decimal m \<longrightarrow>
             ''[1:15:30]'' = ''['' @ show_nat (decimal m div 60) @ '':'' @
                     padStart 2 CHR ''0'' (show_nat (decimal m mod 60)) @ '':'' @
                     padStart 2 CHR ''0'' (show_nat (decimal s)) @ '']''))
   \<and> (js_lt0 (Fin (- 1)) \<or> isNaN (Fin (- 1)))
   \<and> jumpToTimestamp (Fin (- 1)) example_seek_state = example_seek_state
   \<and> jumpToTimestamp (to_number None) example_seek_state = example_seek_state"
proof -
  have m: "Link 3 ''[1:15:30]'' (Some 4530) \<in> set (renderAnswer ''at [75:30] ok ( 1:02:03 ) end'')"
    by (simp add: renderAnswer_example)
  have n: "js_lt0 (Fin (- 1)) \<or> isNaN (Fin (- 1))"
    by (simp add: js_lt0_def)
  have o: "js_lt0 (to_number None) \<or> isNaN (to_number None)"
    by (simp add: isNaN_def to_number_def)
  from m n o
    renderAnswer_timestamps [of 3 "''[1:15:30]''" "Some 4530" "''at [75:30] ok ( 1:02:03 ) end''"
      "Fin (- 1)" example_seek_state]
    renderAnswer_timestamps [of 3 "''[1:15:30]''" "Some 4530" "''at [75:30] ok ( 1:02:03 ) end''"
      "to_number None" example_seek_state]
  show ?thesis by blast
qed

section \<open>The API client (types/api.ts; lib/api is a parameter)\<close>

record RAGGenerateRequest =
  gq_query :: string
  gq_top_k :: int

record RAGGenerateResponse =
  gr_success :: bool
  gr_query :: string
  gr_video_id :: string
  gr_answer :: string
  gr_sources :: "RAGSearchResult list"
  gr_retrieval_only :: bool
  gr_error :: "string option"

record RAGProcessRequest =
  pq_overwrite :: bool

record RAGProcessResponse =
  pr_success :: bool
  pr_video_id :: string
  pr_chunks_stored :: "int option"
  pr_collection_name :: "string option"
  pr_error :: "string option"

text \<open>
  \<open>metadata\<close> is a \<open>Record<string, any>\<close>; the pages read only \<open>metadata.error\<close>, as the
  message of an \<open>Error\<close>, so its values are modelled as strings. The pages test
  \<open>segments\<close> for absence, so the field is optional here.
\<close>

record TranscriptWithTimestampsResponse =
  tr_success :: bool
  tr_video_id :: string
  tr_segments :: "TranscriptSegment list option"
  tr_metadata :: "(string \<times> string) list"

record FactVerificationRequest =
  fq_claims :: "string list"
  fq_video_id :: "string option"
  fq_context :: "string option"
  fq_search_depth :: int
  fq_include_academic :: bool
  fq_include_news :: bool

record FactVerificationResponse =
  fr_success :: bool
  fr_verifications :: "ClaimVerification list"
  fr_total_claims :: int
  fr_processing_time :: real
  fr_error :: "string option"

text \<open>The verification types of the client (client/src/types/api.ts).\<close>

record VerifyRequest =
  vq_video_id :: "string option"
  vq_claim_text :: string
  vq_start_ts :: "real option"
  vq_end_ts :: "real option"
  vq_max_sources :: "int option"

record ClientVerificationSource =
  cs_url :: string
  cs_domain :: string
  cs_title :: "string option"
  cs_published_at :: "string option"
  cs_snippet :: string
  cs_screenshot_b64 :: "string option"
  cs_url_with_text_fragment :: "string option"
  cs_similarity :: real
  cs_entailment_score :: "real option"

record ClientClaimVerification =
  cc_text :: string
  cc_verdict :: string
  cc_confidence :: real
  cc_sources :: "ClientVerificationSource list"

record VerifyResponse =
  vr_success :: bool
  vr_claim :: string
  vr_result :: "ClientClaimVerification option"
  vr_error :: "string option"

text \<open>
  An awaited call either resolves with a value or rejects with an error. An error has a
  message and, when it comes from the HTTP client, the status of the response.
\<close>

record js_error =
  err_message :: string
  err_status :: "nat option"

datatype 'a promise = Rejected js_error | Resolved 'a

definition new_Error :: "string \<Rightarrow> js_error" where
  "new_Error msg = \<lparr>err_message = msg, err_status = None\<rparr>"

text \<open>\<open>a || b\<close> on an optional string: \<open>undefined\<close> and the empty string are falsy.\<close>

definition or_default :: "string option \<Rightarrow> string \<Rightarrow> string" where
  "or_default a b = (case a of None \<Rightarrow> b | Some s \<Rightarrow> if s = [] then b else s)"

fun starts_with :: "string \<Rightarrow> string \<Rightarrow> bool" where
  "starts_with s [] = True"
| "starts_with [] (p # ps) = False"
| "starts_with (c # cs) (p # ps) = (c = p \<and> starts_with cs ps)"

text \<open>\<open>String.prototype.includes\<close>.\<close>

fun str_includes :: "string \<Rightarrow> string \<Rightarrow> bool" where
  "str_includes [] sub = (sub = [])"
| "str_includes (c # cs) sub = (starts_with (c # cs) sub \<or> str_includes cs sub)"

text \<open>\<open>String.prototype.trim\<close>.\<close>

definition trim :: "string \<Rightarrow> string" where
  "trim s = rev (dropWhile is_space (rev (dropWhile is_space s)))"

text \<open>\<open>Array.prototype.join\<close> with a separator.\<close>

fun join :: "string \<Rightarrow> string list \<Rightarrow> string" where
  "join sep [] = []"
| "join sep [x] = x"
| "join sep (x # y # ys) = x @ sep @ join sep (y # ys)"

datatype toast = Toast_success string | Toast_error string

datatype api_call =
    Call_getTranscript string
  | Call_processTranscript string RAGProcessRequest
  | Call_generateResponse string RAGGenerateRequest
  | Call_verifyClaims FactVerificationRequest
  | Call_verifyClaim VerifyRequest

text \<open>
  The API client of \<open>lib/api\<close>, a parameter of the pages: what each call resolves or
  rejects with.
\<close>

record Api =
  getTranscript :: "string \<Rightarrow> TranscriptWithTimestampsResponse promise"
  processTranscript :: "string \<Rightarrow> RAGProcessRequest \<Rightarrow> RAGProcessResponse promise"
  generateResponse :: "string \<Rightarrow> RAGGenerateRequest \<Rightarrow> RAGGenerateResponse promise"
  verifyClaims :: "FactVerificationRequest \<Rightarrow> FactVerificationResponse promise"

section \<open>The workspace page of podsearch-frontend (app/workspace/[videoId]/page.tsx)\<close>

text \<open>
  The state a handler of the page works on: the store, the chat input, the toasts shown
  and the API calls made so far.
\<close>

record Page =
  store :: AppState
  chatInput :: string
  toasts :: "toast list"
  calls :: "api_call list"

definition on_store :: "(AppState \<Rightarrow> AppState) \<Rightarrow> 'a Page_scheme \<Rightarrow> 'a Page_scheme" where
  "on_store f page = page\<lparr>store := f (store page)\<rparr>"

definition show_toast :: "toast \<Rightarrow> 'a Page_scheme \<Rightarrow> 'a Page_scheme" where
  "show_toast t page = page\<lparr>toasts := toasts page @ [t]\<rparr>"

definition log_call :: "api_call \<Rightarrow> 'a Page_scheme \<Rightarrow> 'a Page_scheme" where
  "log_call c page = page\<lparr>calls := calls page @ [c]\<rparr>"

subsection \<open>processTranscriptForRAG\<close>

text \<open>The body of the \<open>try\<close> block: the error thrown, or the state at its end.\<close>

definition processTranscript_try :: "Api \<Rightarrow> string \<Rightarrow> Page \<Rightarrow> (js_error \<times> Page) + Page" where
  "processTranscript_try api videoId page0 =
     (let page1 = log_call (Call_getTranscript videoId) (on_store (setIsProcessing True) page0)
      in case getTranscript api videoId of
           Rejected e \<Rightarrow> Inl (e, page1)
         | Resolved transcriptResponse \<Rightarrow>
             if \<not> tr_success transcriptResponse
             then Inl (new_Error (or_default (map_of (tr_metadata transcriptResponse) ''error'')
                                   ''Failed to extract transcript''), page1)
             else (case tr_segments transcriptResponse of
                     None \<Rightarrow> Inl (new_Error ''No transcript segments found'', page1)
                   | Some segments \<Rightarrow>
                       if length segments = 0
                       then Inl (new_Error ''No transcript segments found'', page1)
                       else
                         (let page2 = log_call (Call_processTranscript videoId \<lparr>pq_overwrite = False\<rparr>)
                                        (on_store (setTranscript segments) page1)
                          in case processTranscript api videoId \<lparr>pq_overwrite = False\<rparr> of
                               Rejected e \<Rightarrow> Inl (e, page2)
                             | Resolved ragResponse \<Rightarrow>
                                 if pr_success ragResponse
                                 then Inr (show_toast (Toast_success ''Video processed successfully!'')
                                            (on_store (setIsProcessed True)
                                              (on_store (setRagReady True) page2)))
                                 else if (case pr_error ragResponse of
                                            None \<Rightarrow> False
                                          | Some msg \<Rightarrow> str_includes msg ''already processed'')
                                 then Inr (show_toast (Toast_success ''Video is ready for chat!'')
                                            (on_store (setIsProcessed True)
                                              (on_store (setRagReady True) page2)))
                                 else Inl (new_Error (or_default (pr_error ragResponse)
                                                       ''Failed to process transcript''), page2))))"

text \<open>
  \<open>processTranscriptForRAG\<close>: the \<open>catch\<close> block shows a toast, resets the flags and
  rethrows; \<open>finally\<close> clears \<open>isProcessing\<close>. The result is the error thrown to the caller,
  if any, and the state.
\<close>

definition processTranscriptForRAG :: "Api \<Rightarrow> string \<Rightarrow> Page \<Rightarrow> js_error option \<times> Page" where
  "processTranscriptForRAG api videoId page =
     (case processTranscript_try api videoId page of
        Inr page' \<Rightarrow> (None, on_store (setIsProcessing False) page')
      | Inl (error, page') \<Rightarrow>
          (let t = (if err_status error = Some 404 then Toast_error ''Video transcript not found''
                    else if str_includes (err_message error) ''transcript''
                    then Toast_error (''Transcript error: '' @ err_message error)
                    else Toast_error ''Failed to process video for AI search'')
           in (Some error,
               on_store (setIsProcessing False)
                 (on_store (setIsProcessed False)
                   (on_store (setRagReady False) (show_toast t page'))))))"

subsection \<open>handleChatSubmit and factCheckResponse\<close>

definition factCheck_request :: "string \<Rightarrow> string \<Rightarrow> RAGGenerateResponse \<Rightarrow> FactVerificationRequest" where
  "factCheck_request videoId answer ragResponse =
     \<lparr>fq_claims = [answer], fq_video_id = Some videoId,
      fq_context = Some (join '' '' (map rs_text (gr_sources ragResponse))),
      fq_search_depth = 3, fq_include_academic = True, fq_include_news = True\<rparr>"

definition factCheckResponse :: "Api \<Rightarrow> string \<Rightarrow> string \<Rightarrow> RAGGenerateResponse \<Rightarrow> Page \<Rightarrow> Page" where
  "factCheckResponse api videoId answer ragResponse page0 =
     (let request = factCheck_request videoId answer ragResponse;
          page1 = log_call (Call_verifyClaims request) (on_store (setFactChecking True) page0);
          page2 =
            (case verifyClaims api request of
               Rejected e \<Rightarrow> page1
             | Resolved factCheckResponse \<Rightarrow>
                 if fr_success factCheckResponse \<and> length (fr_verifications factCheckResponse) > 0
                 then on_store (updateLastMessage
                                 (no_updates\<lparr>up_factCheck := Some (Some (fr_verifications factCheckResponse))\<rparr>))
                        (on_store (setCurrentFactCheck (Some (fr_verifications factCheckResponse))) page1)
                 else page1)
      in on_store (setFactChecking False) page2)"

definition apology_message :: string where
  "apology_message = ''Sorry, I encountered an error while processing your question. Please try again.''"

definition chat_failed :: "'a Page_scheme \<Rightarrow> 'a Page_scheme" where
  "chat_failed page =
     show_toast (Toast_error ''Failed to get response'')
       (on_store (updateLastMessage
          (no_updates\<lparr>up_content := Some apology_message, up_isTyping := Some (Some False)\<rparr>)) page)"

definition user_message :: "string \<Rightarrow> ChatMessageInput" where
  "user_message userMessage =
     \<lparr>mi_type = User, mi_content = userMessage, mi_sources = None, mi_factCheck = None,
      mi_isTyping = None\<rparr>"

definition typing_message :: ChatMessageInput where
  "typing_message =
     \<lparr>mi_type = Assistant, mi_content = [], mi_sources = None, mi_factCheck = None,
      mi_isTyping = Some True\<rparr>"

definition answer_updates :: "RAGGenerateResponse \<Rightarrow> ChatMessageUpdates" where
  "answer_updates ragResponse =
     no_updates\<lparr>up_content := Some (gr_answer ragResponse),
                up_sources := Some (Some (gr_sources ragResponse)),
                up_isTyping := Some (Some False)\<rparr>"

text \<open>
  \<open>handleChatSubmit\<close>. \<open>t1\<close> and \<open>t2\<close> are the clock readings (\<open>Date.now()\<close>, \<open>new Date()\<close>)
  of the two \<open>addChatMessage\<close> calls.
\<close>

definition handleChatSubmit :: "Api \<Rightarrow> string \<Rightarrow> nat \<times> nat \<Rightarrow> nat \<times> nat \<Rightarrow> Page \<Rightarrow> Page" where
  "handleChatSubmit api videoId t1 t2 page0 =
     (if trim (chatInput page0) = [] \<or> \<not> ragReady (workspace (store page0)) then page0
      else
        (let userMessage = trim (chatInput page0);
             request = \<lparr>gq_query = userMessage, gq_top_k = 100\<rparr>;
             page1 = on_store (addChatMessage (fst t2) (snd t2) typing_message)
                       (on_store (addChatMessage (fst t1) (snd t1) (user_message userMessage))
                          (page0\<lparr>chatInput := []\<rparr>));
             page2 = log_call (Call_generateResponse videoId request) page1
         in case generateResponse api videoId request of
              Rejected e \<Rightarrow> chat_failed page2
            | Resolved ragResponse \<Rightarrow>
                if gr_success ragResponse
                then (let page3 = on_store (updateLastMessage (answer_updates ragResponse)) page2
                      in if gr_answer ragResponse \<noteq> []
                         then factCheckResponse api videoId (gr_answer ragResponse) ragResponse page3
                         else page3)
                else chat_failed page2))"

section \<open>The workspace page of the client (client/src/app/workspace/[videoId]/page.tsx)\<close>

text \<open>
  The store of the client is not among the sources. Its page calls store actions of the
  same names as the ones of \<open>store/useStore.ts\<close>, which stand for them here.
\<close>

record ClientApi = Api +
  verifyClaim :: "VerifyRequest \<Rightarrow> VerifyResponse promise"

text \<open>
  An entry of \<open>messageSelections\<close>. An entry that the updater of \<open>handleVerify\<close> creates for
  a missing key has no \<open>text\<close>, so the field is optional here.
\<close>

record Selection =
  sel_text :: "string option"
  sel_verifying :: bool
  sel_result :: "ClientClaimVerification option"

record ClientPage = Page +
  retryAttempts :: nat
  messageSelections :: "string \<rightharpoonup> Selection"

definition client_processTranscript_try ::
  "'a Api_scheme \<Rightarrow> string \<Rightarrow> ClientPage \<Rightarrow> (js_error \<times> ClientPage) + ClientPage" where
  "client_processTranscript_try api videoId page0 =
     (let page1 = log_call (Call_getTranscript videoId) (on_store (setIsProcessing True) page0)
      in case getTranscript api videoId of
           Rejected e \<Rightarrow> Inl (e, page1)
         | Resolved transcriptResponse \<Rightarrow>
             if \<not> tr_success transcriptResponse
             then Inl (new_Error (or_default (map_of (tr_metadata transcriptResponse) ''error'')
                                   ''Failed to extract transcript''), page1)
             else (case tr_segments transcriptResponse of
                     None \<Rightarrow> Inl (new_Error ''No transcript segments found'', page1)
                   | Some segments \<Rightarrow>
                       if length segments = 0
                       then Inl (new_Error ''No transcript segments found'', page1)
                       else
                         (let page2 = log_call (Call_processTranscript videoId \<lparr>pq_overwrite = False\<rparr>)
                                        (on_store (setTranscript segments) page1)
                          in case processTranscript api videoId \<lparr>pq_overwrite = False\<rparr> of
                               Rejected e \<Rightarrow> Inl (e, page2)
                             | Resolved ragResponse \<Rightarrow>
                                 if pr_success ragResponse
                                 then Inr (show_toast (Toast_success ''Video processed successfully!'')
                                            ((on_store (setIsProcessed True)
                                               (on_store (setRagReady True) page2))
                                             \<lparr>retryAttempts := 0\<rparr>))
                                 else if (case pr_error ragResponse of
                                            None \<Rightarrow> False
                                          | Some msg \<Rightarrow> str_includes msg ''Video already processed'')
                                 then Inr (show_toast (Toast_success ''Video is ready for chat!'')
                                            ((on_store (setIsProcessed True)
                                               (on_store (setRagReady True) page2))
                                             \<lparr>retryAttempts := 0\<rparr>))
                                 else Inl (new_Error (or_default (pr_error ragResponse)
                                                       ''Failed to process transcript''), page2))))"

definition client_processTranscriptForRAG ::
  "'a Api_scheme \<Rightarrow> string \<Rightarrow> ClientPage \<Rightarrow> js_error option \<times> ClientPage" where
  "client_processTranscriptForRAG api videoId page =
     (case client_processTranscript_try api videoId page of
        Inr page' \<Rightarrow> (None, on_store (setIsProcessing False) page')
      | Inl (error, page') \<Rightarrow>
          (Some error,
           on_store (setIsProcessing False)
             (on_store (setIsProcessed False) (on_store (setRagReady False) page'))))"

definition client_handleChatSubmit ::
  "'a Api_scheme \<Rightarrow> string \<Rightarrow> nat \<times> nat \<Rightarrow> nat \<times> nat \<Rightarrow> ClientPage \<Rightarrow> ClientPage" where
  "client_handleChatSubmit api videoId t1 t2 page0 =
     (if trim (chatInput page0) = [] \<or> \<not> ragReady (workspace (store page0))
         \<or> isProcessing (workspace (store page0))
      then page0
      else
        (let userMessage = trim (chatInput page0);
             request = \<lparr>gq_query = userMessage, gq_top_k = 100\<rparr>;
             page1 = on_store (addChatMessage (fst t2) (snd t2) typing_message)
                       (on_store (addChatMessage (fst t1) (snd t1) (user_message userMessage))
                          (page0\<lparr>chatInput := []\<rparr>));
             page2 = log_call (Call_generateResponse videoId request) page1
         in case generateResponse api videoId request of
              Rejected e \<Rightarrow> chat_failed page2
            | Resolved ragResponse \<Rightarrow>
                if gr_success ragResponse
                then on_store (updateLastMessage (answer_updates ragResponse)) page2
                else chat_failed page2))"

subsection \<open>handleVerify and the verdict badge\<close>

definition handleVerify_request :: "string \<Rightarrow> VerifyRequest" where
  "handleVerify_request selected =
     \<lparr>vq_video_id = None, vq_claim_text = selected, vq_start_ts = None, vq_end_ts = None,
      vq_max_sources = Some 3\<rparr>"

text \<open>
  The updater \<open>prev => ({...prev, [messageId]: {...prev[messageId], verifying, result}})\<close>:
  the spread of a missing entry adds nothing, so a missing key gets an entry without text.
\<close>

definition set_selection :: "string \<Rightarrow> bool \<Rightarrow> ClientClaimVerification option \<Rightarrow> ClientPage \<Rightarrow> ClientPage" where
  "set_selection messageId verifying result page =
     page\<lparr>messageSelections := (messageSelections page)
       (messageId \<mapsto>
          (case messageSelections page messageId of
             None \<Rightarrow> \<lparr>sel_text = None, sel_verifying = verifying, sel_result = result\<rparr>
           | Some prev \<Rightarrow> prev\<lparr>sel_verifying := verifying, sel_result := result\<rparr>))\<rparr>"

definition handleVerify :: "ClientApi \<Rightarrow> string \<Rightarrow> ClientPage \<Rightarrow> ClientPage" where
  "handleVerify api messageId page0 =
     (case messageSelections page0 messageId of
        None \<Rightarrow> page0
      | Some selection \<Rightarrow>
          (case sel_text selection of
             None \<Rightarrow> page0
           | Some selected \<Rightarrow>
               if selected = [] \<or> sel_verifying selection then page0
               else
                 (let request = handleVerify_request selected;
                      page1 = log_call (Call_verifyClaim request) (set_selection messageId True None page0)
                  in case verifyClaim api request of
                       Rejected e \<Rightarrow>
                         set_selection messageId False None
                           (show_toast (Toast_error (or_default (Some (err_message e)) ''Verification failed''))
                              page1)
                     | Resolved res \<Rightarrow>
                         if vr_success res
                         then show_toast (Toast_success ''Claim verified!'')
                                (set_selection messageId False (vr_result res) page1)
                         else set_selection messageId False None
                                (show_toast (Toast_error (or_default (vr_error res) ''Verification failed''))
                                   page1))))"

text \<open>The class of the verdict badge.\<close>

definition verdict_badge :: "string \<Rightarrow> string" where
  "verdict_badge verdict =
     (if verdict = ''Supported'' then ''fact-check-verified''
      else if verdict = ''Contradicted'' then ''fact-check-error''
      else ''fact-check-unclear'')"

text \<open>
  The badge knows the verdicts \<open>Supported\<close> and \<open>Contradicted\<close>; each of the four verdicts
  of the specification gets the badge of an unclear result.
\<close>

lemma verdict_badge_spec_verdicts:
  "verdict \<in> {''Verified'', ''Partially Verified'', ''False'', ''Unclear''} \<Longrightarrow>
     verdict_badge verdict = ''fact-check-unclear''"
  by (auto simp: verdict_badge_def)

section \<open>Requests and responses on the wire\<close>

text \<open>
  Modelled from the spec: the HTTP client \<open>lib/api\<close> is not among the sources. Requests and
  responses are JSON over HTTP (section 6), so a request object travels as
  \<open>JSON.stringify\<close> writes it: the keys in the order of the object, without a key whose
  value is \<open>undefined\<close>.
\<close>

definition opt_field :: "string \<Rightarrow> json option \<Rightarrow> (string \<times> json) list" where
  "opt_field k v = (case v of None \<Rightarrow> [] | Some x \<Rightarrow> [(k, x)])"

text \<open>
  Modelled from the spec: the JSON body that \<open>lib/api\<close>, which is not among the sources,
  sends for a request object of type \<open>FactVerificationRequest\<close>.
\<close>

definition encode_FactVerificationRequest :: "FactVerificationRequest \<Rightarrow> json" where
  "encode_FactVerificationRequest r =
     JObj ([(''claims'', JArr (map JStr (fq_claims r)))] @
           opt_field ''video_id'' (map_option JStr (fq_video_id r)) @
           opt_field ''context'' (map_option JStr (fq_context r)) @
           [(''search_depth'', JNum (real_of_int (fq_search_depth r))),
            (''include_academic'', JBool (fq_include_academic r)),
            (''include_news'', JBool (fq_include_news r))])"

definition object_keys :: "json \<Rightarrow> string list" where
  "object_keys j = (case j of JObj kvs \<Rightarrow> map fst kvs | _ \<Rightarrow> [])"

definition is_object :: "json \<Rightarrow> bool" where
  "is_object j = (case j of JObj kvs \<Rightarrow> True | _ \<Rightarrow> False)"

definition field :: "json \<Rightarrow> string \<Rightarrow> json option" where
  "field j k = (case j of JObj kvs \<Rightarrow> map_of kvs k | _ \<Rightarrow> None)"

definition is_string :: "json \<Rightarrow> bool" where
  "is_string j = (case j of JStr s \<Rightarrow> True | _ \<Rightarrow> False)"

definition is_number :: "json \<Rightarrow> bool" where
  "is_number j = (case j of JNum x \<Rightarrow> True | _ \<Rightarrow> False)"

definition is_boolean :: "json \<Rightarrow> bool" where
  "is_boolean j = (case j of JBool b \<Rightarrow> True | _ \<Rightarrow> False)"

definition is_array :: "json \<Rightarrow> bool" where
  "is_array j = (case j of JArr xs \<Rightarrow> True | _ \<Rightarrow> False)"

definition is_string_array :: "json \<Rightarrow> bool" where
  "is_string_array j = (case j of JArr xs \<Rightarrow> list_all is_string xs | _ \<Rightarrow> False)"

definition has :: "json \<Rightarrow> string \<Rightarrow> (json \<Rightarrow> bool) \<Rightarrow> bool" where
  "has j k ok = (case field j k of None \<Rightarrow> False | Some v \<Rightarrow> ok v)"

definition may_have :: "json \<Rightarrow> string \<Rightarrow> (json \<Rightarrow> bool) \<Rightarrow> bool" where
  "may_have j k ok = (case field j k of None \<Rightarrow> True | Some v \<Rightarrow> ok v)"

text \<open>
  The four enumerated verdicts, by the names of the specification. The type
  \<open>VerificationStatus\<close> of podsearch-frontend writes each name after a pictograph, and
  \<open>Unclear\<close> as \<open>Unclear/Insufficient Evidence\<close>.
\<close>

definition enumerated_verdicts :: "string list" where
  "enumerated_verdicts = [''Verified'', ''Partially Verified'', ''False'', ''Unclear'']"

text \<open>The value of the declared type \<open>VerificationStatus\<close> that a verdict names, if any.\<close>

definition status_of :: "string \<Rightarrow> VerificationStatus option" where
  "status_of verdict =
     (if verdict = ''Verified'' then Some Verified
      else if verdict = ''Partially Verified'' then Some Partially_Verified
      else if verdict = ''False'' then Some False_claim
      else if verdict = ''Unclear'' then Some Unclear
      else None)"

definition is_verdict :: "json \<Rightarrow> bool" where
  "is_verdict j = (case j of JStr s \<Rightarrow> s \<in> set enumerated_verdicts | _ \<Rightarrow> False)"

text \<open>
  The shapes as the specification words them. Section 6, \<open>POST /verify\<close>: the body
  \<open>{claims: [string], video_id?, context?, search_depth, include_academic, include_news}\<close>
  and the response \<open>{success, verifications: [ClaimVerification], total_claims,
  processing_time, error?}\<close>, with exactly these fields. Section 3, \<open>ClaimVerification\<close>:
  \<open>{claim, verdict, confidence, explanation, sources, verification_timestamp,
  reasoning_trace}\<close>, the verdict one of the four enumerated values.
\<close>

definition spec_verify_request :: "json \<Rightarrow> bool" where
  "spec_verify_request j =
     (is_object j \<and> distinct (object_keys j)
      \<and> list_all (\<lambda>k. k \<in> set [''claims'', ''video_id'', ''context'', ''search_depth'',
                                  ''include_academic'', ''include_news'']) (object_keys j)
      \<and> has j ''claims'' is_string_array
      \<and> may_have j ''video_id'' is_string
      \<and> may_have j ''context'' is_string
      \<and> has j ''search_depth'' is_number
      \<and> has j ''include_academic'' is_boolean
      \<and> has j ''include_news'' is_boolean)"

definition spec_claim_verification :: "json \<Rightarrow> bool" where
  "spec_claim_verification j =
     (is_object j \<and> distinct (object_keys j)
      \<and> list_all (\<lambda>k. k \<in> set [''claim'', ''verdict'', ''confidence'', ''explanation'', ''sources'',
                                  ''verification_timestamp'', ''reasoning_trace'']) (object_keys j)
      \<and> has j ''claim'' is_string
      \<and> has j ''verdict'' is_verdict
      \<and> has j ''confidence'' is_number
      \<and> has j ''explanation'' is_string
      \<and> has j ''sources'' is_array
      \<and> has j ''verification_timestamp'' is_string
      \<and> has j ''reasoning_trace'' is_string)"

definition is_verification_array :: "json \<Rightarrow> bool" where
  "is_verification_array j = (case j of JArr xs \<Rightarrow> list_all spec_claim_verification xs | _ \<Rightarrow> False)"

definition spec_verify_response :: "json \<Rightarrow> bool" where
  "spec_verify_response j =
     (is_object j \<and> distinct (object_keys j)
      \<and> list_all (\<lambda>k. k \<in> set [''success'', ''verifications'', ''total_claims'',
                                  ''processing_time'', ''error'']) (object_keys j)
      \<and> has j ''success'' is_boolean
      \<and> has j ''verifications'' is_verification_array
      \<and> has j ''total_claims'' is_number
      \<and> has j ''processing_time'' is_number
      \<and> may_have j ''error'' is_string)"

section \<open>What the pages send\<close>

definition new_calls :: "'a Page_scheme \<Rightarrow> 'b Page_scheme \<Rightarrow> api_call list" where
  "new_calls before after = drop (length (calls before)) (calls after)"

lemma calls_simps [simp]:
  "calls (on_store f page) = calls page"
  "calls (show_toast t page) = calls page"
  "calls (log_call c page) = calls page @ [c]"
  "calls (chat_failed page) = calls page"
  by (simp_all add: on_store_def show_toast_def log_call_def chat_failed_def)

lemma factCheckResponse_calls:
  "calls (factCheckResponse api videoId answer ragResponse page) =
     calls page @ [Call_verifyClaims (factCheck_request videoId answer ragResponse)]"
  by (simp add: factCheckResponse_def Let_def split: promise.splits)

lemma handleChatSubmit_calls:
  "new_calls page (handleChatSubmit api videoId t1 t2 page) = [] \<or>
   (\<exists>rest. new_calls page (handleChatSubmit api videoId t1 t2 page) =
      Call_generateResponse videoId \<lparr>gq_query = trim (chatInput page), gq_top_k = 100\<rparr> # rest
    \<and> (rest = [] \<or> (\<exists>ragResponse. rest =
          [Call_verifyClaims (factCheck_request videoId (gr_answer ragResponse) ragResponse)])))"
  by (auto simp: handleChatSubmit_def new_calls_def Let_def factCheckResponse_calls
      split: promise.splits)

lemma client_handleChatSubmit_calls:
  "new_calls page (client_handleChatSubmit api videoId t1 t2 page) = [] \<or>
   new_calls page (client_handleChatSubmit api videoId t1 t2 page) =
     [Call_generateResponse videoId \<lparr>gq_query = trim (chatInput page), gq_top_k = 100\<rparr>]"
  by (auto simp: client_handleChatSubmit_def new_calls_def Let_def split: promise.splits)

lemma processTranscriptForRAG_calls:
  "set (new_calls page (snd (processTranscriptForRAG api videoId page))) \<subseteq>
     {Call_getTranscript videoId, Call_processTranscript videoId \<lparr>pq_overwrite = False\<rparr>}"
  by (auto simp: processTranscriptForRAG_def processTranscript_try_def new_calls_def Let_def
      split: promise.splits option.splits if_splits sum.splits)

lemma client_processTranscriptForRAG_calls:
  "set (new_calls page (snd (client_processTranscriptForRAG api videoId page))) \<subseteq>
     {Call_getTranscript videoId, Call_processTranscript videoId \<lparr>pq_overwrite = False\<rparr>}"
  by (auto simp: client_processTranscriptForRAG_def client_processTranscript_try_def new_calls_def
      Let_def split: promise.splits option.splits if_splits sum.splits)

lemma set_selection_calls [simp]: "calls (set_selection messageId v r page) = calls page"
  by (simp add: set_selection_def)

lemma handleVerify_calls:
  "new_calls page (handleVerify api messageId page) = [] \<or>
   (\<exists>selected. new_calls page (handleVerify api messageId page) =
      [Call_verifyClaim (handleVerify_request selected)])"
  by (auto simp: handleVerify_def new_calls_def Let_def split: promise.splits option.splits)


section \<open>The RAG backend, from the specification\<close>

text \<open>
  The pages talk to a backend whose code is not part of the frontend sources. Its
  operations are modelled here from the specification (sections 3, 4.2 to 4.4 and 7).
\<close>

text \<open>
  Modelled from the spec: the data model of section 3, an embedding as a vector of
  numbers, a \<open>TranscriptChunk\<close>, and a \<open>VideoCollection\<close> with its chunks and embeddings, its
  processed flag and its last-updated time; the vector index holds one collection per
  collection name.
\<close>

type_synonym embedding = "real list"

record TranscriptChunk =
  tc_text :: string
  tc_start_timestamp :: real
  tc_source_segment_index :: nat

record VideoCollection =
  vc_entries :: "(embedding \<times> TranscriptChunk) list"
  vc_processed :: bool
  vc_last_updated :: nat

type_synonym vector_index = "string \<rightharpoonup> VideoCollection"

text \<open>Modelled from the spec: the errors of section 7 that the RAG operations raise.\<close>

datatype backend_error =
    NotProcessedError
  | AlreadyProcessedError
  | EmbeddingBackendError
  | GenerationBackendError

text \<open>Modelled from the spec: the text of the \<open>error\<close> field of a response, the error's name.\<close>

definition error_text :: "backend_error \<Rightarrow> string" where
  "error_text e =
     (case e of
        NotProcessedError \<Rightarrow> ''NotProcessedError''
      | AlreadyProcessedError \<Rightarrow> ''AlreadyProcessedError''
      | EmbeddingBackendError \<Rightarrow> ''EmbeddingBackendError''
      | GenerationBackendError \<Rightarrow> ''GenerationBackendError'')"

text \<open>
  Modelled from the spec: the collection naming convention, "deterministic, derived only
  from \<open>video_id\<close>"; the backend's README gives the name \<open>transcript_{video_id}\<close>.
\<close>

definition collection_name :: "string \<Rightarrow> string" where
  "collection_name video_id = ''transcript_'' @ video_id"

text \<open>
  Modelled from the spec: the embedding of every chunk by the embedding model \<open>embedder\<close>,
  which is \<open>None\<close> when the embedding service is unavailable; one failure fails the whole
  set ("no partial index is left behind").
\<close>

fun embed_all :: "(string \<Rightarrow> embedding option) \<Rightarrow> TranscriptChunk list \<Rightarrow>
    (embedding \<times> TranscriptChunk) list option" where
  "embed_all embedder [] = Some []"
| "embed_all embedder (c # cs) =
     (case embedder (tc_text c) of
        None \<Rightarrow> None
      | Some e \<Rightarrow> (case embed_all embedder cs of None \<Rightarrow> None | Some es \<Rightarrow> Some ((e, c) # es)))"

text \<open>
  Modelled from the spec: what \<open>process\<close> reports, the number of chunks stored, the
  "already processed" signal, or a fatal error.
\<close>

datatype process_result = Stored nat | AlreadyProcessed | ProcessFailed backend_error

text \<open>
  Modelled from the spec: the Embedding Indexer's \<open>process(video_id, chunks, overwrite)\<close>
  (section 4.2). With \<open>overwrite = false\<close> and an existing collection it returns the
  "already processed" signal without recomputation; an empty chunk set is a no-op that
  reports zero chunks stored; an unavailable embedding service is fatal and writes
  nothing; otherwise the collection of the video is replaced as a whole.
\<close>

definition process :: "(string \<Rightarrow> embedding option) \<Rightarrow> nat \<Rightarrow> vector_index \<Rightarrow> string \<Rightarrow>
    TranscriptChunk list \<Rightarrow> bool \<Rightarrow> vector_index \<times> process_result" where
  "process embedder now idx video_id chunks overwrite =
     (if \<not> overwrite \<and> idx (collection_name video_id) \<noteq> None then (idx, AlreadyProcessed)
      else if chunks = [] then (idx, Stored 0)
      else (case embed_all embedder chunks of
              None \<Rightarrow> (idx, ProcessFailed EmbeddingBackendError)
            | Some entries \<Rightarrow>
                (idx(collection_name video_id \<mapsto>
                   \<lparr>vc_entries = entries, vc_processed = True, vc_last_updated = now\<rparr>),
                 Stored (length entries))))"

text \<open>
  Modelled from the spec: the response of \<open>POST /process/{video_id}\<close>,
  \<open>{success, video_id, chunks_stored?, collection_name?, error?}\<close>. The "already
  processed" signal "reports success" and is no error (sections 4.2, 7 and 8).
\<close>

definition process_response :: "string \<Rightarrow> process_result \<Rightarrow> RAGProcessResponse" where
  "process_response video_id result =
     (case result of
        Stored n \<Rightarrow>
          \<lparr>pr_success = True, pr_video_id = video_id, pr_chunks_stored = Some (int n),
           pr_collection_name = Some (collection_name video_id), pr_error = None\<rparr>
      | AlreadyProcessed \<Rightarrow>
          \<lparr>pr_success = True, pr_video_id = video_id, pr_chunks_stored = None,
           pr_collection_name = Some (collection_name video_id), pr_error = None\<rparr>
      | ProcessFailed e \<Rightarrow>
          \<lparr>pr_success = False, pr_video_id = video_id, pr_chunks_stored = None,
           pr_collection_name = None, pr_error = Some (error_text e)\<rparr>)"

text \<open>
  Modelled from the spec: the ranking of the Retriever, by descending relevance score,
  ties by ascending segment index.
\<close>

definition ranks_before :: "RAGSearchResult \<Rightarrow> RAGSearchResult \<Rightarrow> bool" where
  "ranks_before a b =
     (rs_relevance_score a > rs_relevance_score b
      \<or> (rs_relevance_score a = rs_relevance_score b \<and> rs_segment_index a \<le> rs_segment_index b))"

text \<open>Modelled from the spec: the ranking as an insertion sort by \<open>ranks_before\<close>.\<close>

fun insert_ranked :: "RAGSearchResult \<Rightarrow> RAGSearchResult list \<Rightarrow> RAGSearchResult list" where
  "insert_ranked x [] = [x]"
| "insert_ranked x (y # ys) = (if ranks_before x y then x # y # ys else y # insert_ranked x ys)"

text \<open>Modelled from the spec: the ranked list of all results.\<close>

definition rank :: "RAGSearchResult list \<Rightarrow> RAGSearchResult list" where
  "rank xs = foldr insert_ranked xs []"

text \<open>
  Modelled from the spec: the \<open>RetrievalResult\<close> of a chunk with its relevance score,
  \<open>{chunk_text, timestamp, segment_index, relevance_score, metadata}\<close>.
\<close>

definition result_of :: "real \<Rightarrow> TranscriptChunk \<Rightarrow> RAGSearchResult" where
  "result_of score c =
     \<lparr>rs_text = tc_text c, rs_timestamp = Some (tc_start_timestamp c),
      rs_segment_index = int (tc_source_segment_index c), rs_relevance_score = score,
      rs_metadata = []\<rparr>"

text \<open>
  Modelled from the spec: the Retriever's \<open>search(video_id, query, top_k)\<close> (section 4.3).
  \<open>similarity\<close> is the similarity of two embeddings, which the specification leaves open.
  The search fails when the video was never processed.
\<close>

definition search :: "(string \<Rightarrow> embedding option) \<Rightarrow> (embedding \<Rightarrow> embedding \<Rightarrow> real) \<Rightarrow>
    vector_index \<Rightarrow> string \<Rightarrow> string \<Rightarrow> nat \<Rightarrow> backend_error + RAGSearchResult list" where
  "search embedder similarity idx video_id query top_k =
     (case idx (collection_name video_id) of
        None \<Rightarrow> Inl NotProcessedError
      | Some collection \<Rightarrow>
          (case embedder query of
             None \<Rightarrow> Inl EmbeddingBackendError
           | Some q \<Rightarrow>
               Inr (take top_k
                 (rank (map (\<lambda>(e, c). result_of (similarity q e) c) (vc_entries collection))))))"

text \<open>
  Modelled from the spec: the prompt of the Answer Generator holds the query and the
  retrieved chunk texts with their timestamps; the fallback answer concatenates the chunk
  texts and truncates them to \<open>limit\<close> characters.
\<close>

type_synonym prompt = "string \<times> (real option \<times> string) list"

definition build_prompt :: "string \<Rightarrow> RAGSearchResult list \<Rightarrow> prompt" where
  "build_prompt query results = (query, map (\<lambda>r. (rs_timestamp r, rs_text r)) results)"

text \<open>Modelled from the spec: the deterministic fallback answer of retrieval-only mode.\<close>

definition fallback_answer :: "nat \<Rightarrow> RAGSearchResult list \<Rightarrow> string" where
  "fallback_answer limit results = take limit (join '' '' (map rs_text results))"

text \<open>
  Modelled from the spec: the Answer Generator's \<open>generate(video_id, query, top_k)\<close>
  (section 4.4). \<open>llm\<close> is the generative backend: \<open>None\<close> when none is configured,
  otherwise a model whose call returns \<open>None\<close> on a backend error or timeout. Without a
  backend, or when the call fails, the answer is the fallback and \<open>retrieval_only\<close> is
  set; the sources are the Retriever's output in every branch.
\<close>

definition generate :: "(string \<Rightarrow> embedding option) \<Rightarrow> (embedding \<Rightarrow> embedding \<Rightarrow> real) \<Rightarrow>
    vector_index \<Rightarrow> (prompt \<Rightarrow> string option) option \<Rightarrow> nat \<Rightarrow>
    string \<Rightarrow> string \<Rightarrow> nat \<Rightarrow> RAGGenerateResponse" where
  "generate embedder similarity idx llm limit video_id query top_k =
     (case search embedder similarity idx video_id query top_k of
        Inl e \<Rightarrow>
          \<lparr>gr_success = False, gr_query = query, gr_video_id = video_id, gr_answer = [],
           gr_sources = [], gr_retrieval_only = False, gr_error = Some (error_text e)\<rparr>
      | Inr results \<Rightarrow>
          (let retrieval_only =
                 \<lparr>gr_success = True, gr_query = query, gr_video_id = video_id,
                  gr_answer = fallback_answer limit results, gr_sources = results,
                  gr_retrieval_only = True, gr_error = None\<rparr>
           in case llm of
                None \<Rightarrow> retrieval_only
              | Some model \<Rightarrow>
                  (case model (build_prompt query results) of
                     None \<Rightarrow> retrieval_only
                   | Some answer \<Rightarrow>
                       \<lparr>gr_success = True, gr_query = query, gr_video_id = video_id,
                        gr_answer = answer, gr_sources = results,
                        gr_retrieval_only = False, gr_error = None\<rparr>)))"


section \<open>The pages on the backend's responses\<close>

lemma store_simps [simp]:
  "store (on_store f page) = f (store page)"
  "store (show_toast t page) = store page"
  "store (log_call c page) = store page"
  by (simp_all add: on_store_def show_toast_def log_call_def)

lemma toasts_simps [simp]:
  "toasts (on_store f page) = toasts page"
  "toasts (show_toast t page) = toasts page @ [t]"
  "toasts (log_call c page) = toasts page"
  by (simp_all add: on_store_def show_toast_def log_call_def)

lemma workspace_flags [simp]:
  "ragReady (workspace (setRagReady b s)) = b"
  "ragReady (workspace (setIsProcessed b s)) = ragReady (workspace s)"
  "ragReady (workspace (setIsProcessing b s)) = ragReady (workspace s)"
  "ragReady (workspace (setTranscript t s)) = ragReady (workspace s)"
  "isProcessed (workspace (setIsProcessed b s)) = b"
  "isProcessed (workspace (setRagReady b s)) = isProcessed (workspace s)"
  "isProcessed (workspace (setIsProcessing b s)) = isProcessed (workspace s)"
  "isProcessed (workspace (setTranscript t s)) = isProcessed (workspace s)"
  "isProcessing (workspace (setIsProcessing b s)) = b"
  by (simp_all add: setRagReady_def setIsProcessed_def setIsProcessing_def setTranscript_def)

lemma processTranscriptForRAG_success:
  assumes "getTranscript api videoId = Resolved tr" "tr_success tr"
    "tr_segments tr = Some segments" "segments \<noteq> []"
    "processTranscript api videoId \<lparr>pq_overwrite = False\<rparr> = Resolved ragResponse"
    "pr_success ragResponse"
  shows "processTranscriptForRAG api videoId page =
    (None, on_store (setIsProcessing False)
       (show_toast (Toast_success ''Video processed successfully!'')
         (on_store (setIsProcessed True) (on_store (setRagReady True)
           (log_call (Call_processTranscript videoId \<lparr>pq_overwrite = False\<rparr>)
             (on_store (setTranscript segments)
               (log_call (Call_getTranscript videoId) (on_store (setIsProcessing True) page))))))))"
  using assms by (simp add: processTranscriptForRAG_def processTranscript_try_def Let_def)

lemma client_processTranscriptForRAG_success:
  assumes "getTranscript api videoId = Resolved tr" "tr_success tr"
    "tr_segments tr = Some segments" "segments \<noteq> []"
    "processTranscript api videoId \<lparr>pq_overwrite = False\<rparr> = Resolved ragResponse"
    "pr_success ragResponse"
  shows "client_processTranscriptForRAG api videoId page =
    (None, on_store (setIsProcessing False)
       (show_toast (Toast_success ''Video processed successfully!'')
         ((on_store (setIsProcessed True) (on_store (setRagReady True)
           (log_call (Call_processTranscript videoId \<lparr>pq_overwrite = False\<rparr>)
             (on_store (setTranscript segments)
               (log_call (Call_getTranscript videoId) (on_store (setIsProcessing True) page))))))
          \<lparr>retryAttempts := 0\<rparr>)))"
  using assms
  by (simp add: client_processTranscriptForRAG_def client_processTranscript_try_def Let_def)

text \<open>
  The pages also accept, as the sign of a processed video, a response with
  \<open>success = false\<close> whose error text contains \<open>already processed\<close> (the client page:
  \<open>Video already processed\<close>).
\<close>

lemma processTranscriptForRAG_error_signal:
  assumes "getTranscript api videoId = Resolved tr" "tr_success tr"
    "tr_segments tr = Some segments" "segments \<noteq> []"
    "processTranscript api videoId \<lparr>pq_overwrite = False\<rparr> = Resolved ragResponse"
    "\<not> pr_success ragResponse" "pr_error ragResponse = Some msg"
    "str_includes msg ''already processed''"
  shows "fst (processTranscriptForRAG api videoId page) = None
    \<and> ragReady (workspace (store (snd (processTranscriptForRAG api videoId page))))
    \<and> isProcessed (workspace (store (snd (processTranscriptForRAG api videoId page))))"
  using assms by (simp add: processTranscriptForRAG_def processTranscript_try_def Let_def)

lemma client_processTranscriptForRAG_error_signal:
  assumes "getTranscript api videoId = Resolved tr" "tr_success tr"
    "tr_segments tr = Some segments" "segments \<noteq> []"
    "processTranscript api videoId \<lparr>pq_overwrite = False\<rparr> = Resolved ragResponse"
    "\<not> pr_success ragResponse" "pr_error ragResponse = Some msg"
    "str_includes msg ''Video already processed''"
  shows "fst (client_processTranscriptForRAG api videoId page) = None
    \<and> ragReady (workspace (store (snd (client_processTranscriptForRAG api videoId page))))
    \<and> isProcessed (workspace (store (snd (client_processTranscriptForRAG api videoId page))))"
  using assms
  by (simp add: client_processTranscriptForRAG_def client_processTranscript_try_def Let_def)

text \<open>
  C1. For a video that is already processed, \<open>process\<close> with \<open>overwrite = false\<close> leaves the
  index as it is and returns the "already processed" signal, whose response is a success
  (\<open>success = true\<close>, no error). On that response \<open>processTranscriptForRAG\<close> of both pages
  throws nothing and marks the video as ready and processed.
\<close>

theorem process_existing_collection:
  "idx (collection_name video_id) \<noteq> None \<longrightarrow>
     process embedder now idx video_id chunks False = (idx, AlreadyProcessed)
   \<and> pr_success (process_response video_id (snd (process embedder now idx video_id chunks False)))
   \<and> pr_error (process_response video_id (snd (process embedder now idx video_id chunks False))) = None
   \<and> (getTranscript api video_id = Resolved tr \<and> tr_success tr
        \<and> tr_segments tr = Some segments \<and> segments \<noteq> []
        \<and> processTranscript api video_id \<lparr>pq_overwrite = False\<rparr> =
            Resolved (process_response video_id (snd (process embedder now idx video_id chunks False)))
      \<longrightarrow> fst (processTranscriptForRAG api video_id page) = None
        \<and> ragReady (workspace (store (snd (processTranscriptForRAG api video_id page))))
        \<and> isProcessed (workspace (store (snd (processTranscriptForRAG api video_id page))))
        \<and> \<not> isProcessing (workspace (store (snd (processTranscriptForRAG api video_id page)))))
   \<and> (getTranscript capi video_id = Resolved tr \<and> tr_success tr
        \<and> tr_segments tr = Some segments \<and> segments \<noteq> []
        \<and> processTranscript capi video_id \<lparr>pq_overwrite = False\<rparr> =
            Resolved (process_response video_id (snd (process embedder now idx video_id chunks False)))
      \<longrightarrow> fst (client_processTranscriptForRAG capi video_id cpage) = None
        \<and> ragReady (workspace (store (snd (client_processTranscriptForRAG capi video_id cpage))))
        \<and> isProcessed (workspace (store (snd (client_processTranscriptForRAG capi video_id cpage))))
        \<and> \<not> isProcessing (workspace (store (snd (client_processTranscriptForRAG capi video_id cpage)))))"
proof
  assume ex: "idx (collection_name video_id) \<noteq> None"
  then have p: "process embedder now idx video_id chunks False = (idx, AlreadyProcessed)"
    by (simp add: process_def)
  have r: "pr_success (process_response video_id AlreadyProcessed)"
    "pr_error (process_response video_id AlreadyProcessed) = None"
    by (simp_all add: process_response_def)
  have a: "fst (processTranscriptForRAG api video_id page) = None
        \<and> ragReady (workspace (store (snd (processTranscriptForRAG api video_id page))))
        \<and> isProcessed (workspace (store (snd (processTranscriptForRAG api video_id page))))
        \<and> \<not> isProcessing (workspace (store (snd (processTranscriptForRAG api video_id page))))"
    if "getTranscript api video_id = Resolved tr" "tr_success tr"
       "tr_segments tr = Some segments" "segments \<noteq> []"
       "processTranscript api video_id \<lparr>pq_overwrite = False\<rparr> =
          Resolved (process_response video_id AlreadyProcessed)"
    using processTranscriptForRAG_success [OF that r(1), of page] by simp
  have b: "fst (client_processTranscriptForRAG capi video_id cpage) = None
        \<and> ragReady (workspace (store (snd (client_processTranscriptForRAG capi video_id cpage))))
        \<and> isProcessed (workspace (store (snd (client_processTranscriptForRAG capi video_id cpage))))
        \<and> \<not> isProcessing (workspace (store (snd (client_processTranscriptForRAG capi video_id cpage))))"
    if "getTranscript capi video_id = Resolved tr" "tr_success tr"
       "tr_segments tr = Some segments" "segments \<noteq> []"
       "processTranscript capi video_id \<lparr>pq_overwrite = False\<rparr> =
          Resolved (process_response video_id AlreadyProcessed)"
    using client_processTranscriptForRAG_success [OF that r(1), of cpage] by simp
  from p r a b
  show "process embedder now idx video_id chunks False = (idx, AlreadyProcessed)
   \<and> pr_success (process_response video_id (snd (process embedder now idx video_id chunks False)))
   \<and> pr_error (process_response video_id (snd (process embedder now idx video_id chunks False))) = None
   \<and> (getTranscript api video_id = Resolved tr \<and> tr_success tr
        \<and> tr_segments tr = Some segments \<and> segments \<noteq> []
        \<and> processTranscript api video_id \<lparr>pq_overwrite = False\<rparr> =
            Resolved (process_response video_id (snd (process embedder now idx video_id chunks False)))
      \<longrightarrow> fst (processTranscriptForRAG api video_id page) = None
        \<and> ragReady (workspace (store (snd (processTranscriptForRAG api video_id page))))
        \<and> isProcessed (workspace (store (snd (processTranscriptForRAG api video_id page))))
        \<and> \<not> isProcessing (workspace (store (snd (processTranscriptForRAG api video_id page)))))
   \<and> (getTranscript capi video_id = Resolved tr \<and> tr_success tr
        \<and> tr_segments tr = Some segments \<and> segments \<noteq> []
        \<and> processTranscript capi video_id \<lparr>pq_overwrite = False\<rparr> =
            Resolved (process_response video_id (snd (process embedder now idx video_id chunks False)))
      \<longrightarrow> fst (client_processTranscriptForRAG capi video_id cpage) = None
        \<and> ragReady (workspace (store (snd (client_processTranscriptForRAG capi video_id cpage))))
        \<and> isProcessed (workspace (store (snd (client_processTranscriptForRAG capi video_id cpage))))
        \<and> \<not> isProcessing (workspace (store (snd (client_processTranscriptForRAG capi video_id cpage)))))"
    by simp
qed


definition example_chunk :: TranscriptChunk where
  "example_chunk =
     \<lparr>tc_text = ''AI safety is important. Sam Altman discussed risk mitigation.'',
      tc_start_timestamp = 0, tc_source_segment_index = 0\<rparr>"

definition example_index :: vector_index where
  "example_index =
     [collection_name ''v1'' \<mapsto>
        \<lparr>vc_entries = [([1], example_chunk)], vc_processed = True, vc_last_updated = 1\<rparr>]"

definition example_transcript :: TranscriptWithTimestampsResponse where
  "example_transcript =
     \<lparr>tr_success = True, tr_video_id = ''v1'',
      tr_segments = Some [\<lparr>ts_text = ''AI safety is important.'', ts_timestamp = Some 0\<rparr>,
                          \<lparr>ts_text = ''Sam Altman discussed risk mitigation.'', ts_timestamp = Some 12\<rparr>],
      tr_metadata = []\<rparr>"

text \<open>
  An API client in front of the modelled backend: the embedding service answers, no
  generative backend is configured and the verification service is down.
\<close>

definition example_api :: Api where
  "example_api =
     \<lparr>getTranscript = (\<lambda>v. Resolved example_transcript),
      processTranscript = (\<lambda>v request. Resolved (process_response v
         (snd (process (\<lambda>t. Some [1]) 2 example_index v [example_chunk] (pq_overwrite request))))),
      generateResponse = (\<lambda>v request. Resolved
         (generate (\<lambda>t. Some [1]) (\<lambda>a b. 1) example_index None 40 v (gq_query request)
            (nat (gq_top_k request)))),
      verifyClaims = (\<lambda>request. Rejected (new_Error ''Network Error''))\<rparr>"

definition example_page :: Page where
  "example_page = \<lparr>store = initialState, chatInput = [], toasts = [], calls = []\<rparr>"

definition example_client_page :: ClientPage where
  "example_client_page =
     \<lparr>store = initialState, chatInput = [], toasts = [], calls = [],
      retryAttempts = 2, messageSelections = Map.empty\<rparr>"

theorem process_existing_collection_witness:
  "example_index (collection_name ''v1'') \<noteq> None
   \<and> process (\<lambda>t. Some [1]) 2 example_index ''v1'' [example_chunk] False =
       (example_index, AlreadyProcessed)
   \<and> getTranscript example_api ''v1'' = Resolved example_transcript
   \<and> tr_success example_transcript
   \<and> tr_segments example_transcript \<noteq> Some []
   \<and> fst (processTranscriptForRAG example_api ''v1'' example_page) = None
   \<and> ragReady (workspace (store (snd (processTranscriptForRAG example_api ''v1'' example_page))))
   \<and> fst (client_processTranscriptForRAG example_api ''v1'' example_client_page) = None
   \<and> ragReady (workspace (store (snd (client_processTranscriptForRAG example_api ''v1'' example_client_page))))"
proof -
  have h1: "example_index (collection_name ''v1'') \<noteq> None"
    by (simp add: example_index_def)
  have h2: "getTranscript example_api ''v1'' = Resolved example_transcript"
    by (simp add: example_api_def)
  have h3: "tr_success example_transcript"
    "tr_segments example_transcript =
       Some [\<lparr>ts_text = ''AI safety is important.'', ts_timestamp = Some 0\<rparr>,
             \<lparr>ts_text = ''Sam Altman discussed risk mitigation.'', ts_timestamp = Some 12\<rparr>]"
    by (simp_all add: example_transcript_def)
  have h4: "processTranscript example_api ''v1'' \<lparr>pq_overwrite = False\<rparr> =
      Resolved (process_response ''v1''
        (snd (process (\<lambda>t. Some [1]) 2 example_index ''v1'' [example_chunk] False)))"
    by (simp add: example_api_def)
  from h1 h2 h3 h4
    process_existing_collection [where idx = example_index and video_id = "''v1''"
      and embedder = "\<lambda>t. Some [1]" and now = 2 and chunks = "[example_chunk]"
      and api = example_api and capi = example_api and tr = example_transcript
      and page = example_page and cpage = example_client_page
      and segments = "[\<lparr>ts_text = ''AI safety is important.'', ts_timestamp = Some 0\<rparr>,
             \<lparr>ts_text = ''Sam Altman discussed risk mitigation.'', ts_timestamp = Some 12\<rparr>]"]
  show ?thesis by simp
qed

lemma updateLastMessage_last:
  assumes "chatMessages (workspace s) \<noteq> []"
  shows "chatMessages (workspace (updateLastMessage u s)) \<noteq> []"
    and "last (chatMessages (workspace (updateLastMessage u s))) =
           merge_updates (last (chatMessages (workspace s))) u"
  using assms by (simp_all add: updateLastMessage_nonempty)

lemma chatMessages_flags [simp]:
  "chatMessages (workspace (setFactChecking b s)) = chatMessages (workspace s)"
  "chatMessages (workspace (setCurrentFactCheck f s)) = chatMessages (workspace s)"
  by (simp_all add: setFactChecking_def setCurrentFactCheck_def)

lemma factCheckResponse_keeps:
  assumes "chatMessages (workspace (store page)) \<noteq> []"
  shows "toasts (factCheckResponse api videoId answer ragResponse page) = toasts page"
    and "cm_content (last (chatMessages (workspace (store
           (factCheckResponse api videoId answer ragResponse page))))) =
         cm_content (last (chatMessages (workspace (store page))))"
    and "cm_sources (last (chatMessages (workspace (store
           (factCheckResponse api videoId answer ragResponse page))))) =
         cm_sources (last (chatMessages (workspace (store page))))"
    and "cm_isTyping (last (chatMessages (workspace (store
           (factCheckResponse api videoId answer ragResponse page))))) =
         cm_isTyping (last (chatMessages (workspace (store page))))"
  using assms
  by (auto simp: factCheckResponse_def Let_def updateLastMessage_last merge_updates_def
      no_updates_def split: promise.splits)

lemma handleChatSubmit_success:
  assumes "trim (chatInput page) \<noteq> []" "ragReady (workspace (store page))"
    and "generateResponse api videoId \<lparr>gq_query = trim (chatInput page), gq_top_k = 100\<rparr> =
           Resolved ragResponse"
    and "gr_success ragResponse"
  shows "toasts (handleChatSubmit api videoId t1 t2 page) = toasts page
    \<and> cm_content (last (chatMessages (workspace (store (handleChatSubmit api videoId t1 t2 page))))) =
        gr_answer ragResponse
    \<and> cm_sources (last (chatMessages (workspace (store (handleChatSubmit api videoId t1 t2 page))))) =
        Some (gr_sources ragResponse)
    \<and> cm_isTyping (last (chatMessages (workspace (store (handleChatSubmit api videoId t1 t2 page))))) =
        Some False"
proof -
  let ?p1 = "on_store (addChatMessage (fst t2) (snd t2) typing_message)
               (on_store (addChatMessage (fst t1) (snd t1) (user_message (trim (chatInput page))))
                  (page\<lparr>chatInput := []\<rparr>))"
  let ?p2 = "log_call (Call_generateResponse videoId
               \<lparr>gq_query = trim (chatInput page), gq_top_k = 100\<rparr>) ?p1"
  let ?p3 = "on_store (updateLastMessage (answer_updates ragResponse)) ?p2"
  have ne2: "chatMessages (workspace (store ?p2)) \<noteq> []"
    by (simp add: addChatMessage_def)
  have ne3: "chatMessages (workspace (store ?p3)) \<noteq> []"
    using ne2 by (simp add: updateLastMessage_last)
  have l3: "last (chatMessages (workspace (store ?p3))) =
      merge_updates (last (chatMessages (workspace (store ?p2)))) (answer_updates ragResponse)"
    using ne2 by (simp add: updateLastMessage_last)
  have t3: "toasts ?p3 = toasts page"
    by (simp add: on_store_def log_call_def)
  have c3: "cm_content (last (chatMessages (workspace (store ?p3)))) = gr_answer ragResponse"
    "cm_sources (last (chatMessages (workspace (store ?p3)))) = Some (gr_sources ragResponse)"
    "cm_isTyping (last (chatMessages (workspace (store ?p3)))) = Some False"
    unfolding l3 by (simp_all add: merge_updates_def answer_updates_def no_updates_def)
  have res: "handleChatSubmit api videoId t1 t2 page =
      (if gr_answer ragResponse \<noteq> []
       then factCheckResponse api videoId (gr_answer ragResponse) ragResponse ?p3 else ?p3)"
    using assms by (simp add: handleChatSubmit_def Let_def)
  show ?thesis
  proof (cases "gr_answer ragResponse \<noteq> []")
    case True
    with res factCheckResponse_keeps [OF ne3] t3 c3 show ?thesis by simp
  next
    case False
    with res t3 c3 show ?thesis by simp
  qed
qed

lemma client_handleChatSubmit_success:
  assumes "trim (chatInput page) \<noteq> []" "ragReady (workspace (store page))"
    "\<not> isProcessing (workspace (store page))"
    and "generateResponse api videoId \<lparr>gq_query = trim (chatInput page), gq_top_k = 100\<rparr> =
           Resolved ragResponse"
    and "gr_success ragResponse"
  shows "toasts (client_handleChatSubmit api videoId t1 t2 page) = toasts page
    \<and> cm_content (last (chatMessages (workspace (store (client_handleChatSubmit api videoId t1 t2 page))))) =
        gr_answer ragResponse
    \<and> cm_sources (last (chatMessages (workspace (store (client_handleChatSubmit api videoId t1 t2 page))))) =
        Some (gr_sources ragResponse)
    \<and> cm_isTyping (last (chatMessages (workspace (store (client_handleChatSubmit api videoId t1 t2 page))))) =
        Some False"
proof -
  let ?p1 = "on_store (addChatMessage (fst t2) (snd t2) typing_message)
               (on_store (addChatMessage (fst t1) (snd t1) (user_message (trim (chatInput page))))
                  (page\<lparr>chatInput := []\<rparr>))"
  let ?p2 = "log_call (Call_generateResponse videoId
               \<lparr>gq_query = trim (chatInput page), gq_top_k = 100\<rparr>) ?p1"
  let ?p3 = "on_store (updateLastMessage (answer_updates ragResponse)) ?p2"
  have ne2: "chatMessages (workspace (store ?p2)) \<noteq> []"
    by (simp add: addChatMessage_def)
  have l3: "last (chatMessages (workspace (store ?p3))) =
      merge_updates (last (chatMessages (workspace (store ?p2)))) (answer_updates ragResponse)"
    using ne2 by (simp add: updateLastMessage_last)
  have t3: "toasts ?p3 = toasts page"
    by (simp add: on_store_def log_call_def)
  have c3: "cm_content (last (chatMessages (workspace (store ?p3)))) = gr_answer ragResponse"
    "cm_sources (last (chatMessages (workspace (store ?p3)))) = Some (gr_sources ragResponse)"
    "cm_isTyping (last (chatMessages (workspace (store ?p3)))) = Some False"
    unfolding l3 by (simp_all add: merge_updates_def answer_updates_def no_updates_def)
  have res: "client_handleChatSubmit api videoId t1 t2 page = ?p3"
    using assms by (simp add: client_handleChatSubmit_def Let_def)
  from res t3 c3 show ?thesis by simp
qed


definition example_ready_page :: Page where
  "example_ready_page =
     \<lparr>store = setRagReady True initialState, chatInput = '' risk '', toasts = [], calls = []\<rparr>"

definition example_ready_client_page :: ClientPage where
  "example_ready_client_page =
     \<lparr>store = setRagReady True initialState, chatInput = '' risk '', toasts = [], calls = [],
      retryAttempts = 0,
      messageSelections = [''5'' \<mapsto> \<lparr>sel_text = Some ''The Earth is flat'', sel_verifying = False,
                                        sel_result = None\<rparr>]\<rparr>"

definition example_client_api :: ClientApi where
  "example_client_api =
     \<lparr>getTranscript = getTranscript example_api,
      processTranscript = processTranscript example_api,
      generateResponse = generateResponse example_api,
      verifyClaims = verifyClaims example_api,
      verifyClaim = (\<lambda>request. Rejected (new_Error ''Network Error''))\<rparr>"

lemma trim_example: "trim '' risk '' = ''risk''"
  by (simp add: trim_def is_space_def)

lemma search_example:
  "search (\<lambda>t. Some [1]) (\<lambda>a b. 1) example_index ''v1'' ''risk'' 100 = Inr [result_of 1 example_chunk]"
  by (simp add: search_def example_index_def rank_def)

text \<open>
  C2. When retrieval succeeds and the generative backend is absent or its call fails,
  \<open>generate\<close> answers with \<open>success = true\<close>, \<open>retrieval_only = true\<close>, no error and the
  Retriever's output as sources. Delivered to \<open>handleChatSubmit\<close> of either page, the
  response is shown as the answer with these sources and no failure is reported.
\<close>

theorem generate_retrieval_only_fallback:
  "search embedder similarity idx video_id query top_k = Inr results
   \<and> (llm = None \<or> (\<exists>model. llm = Some model \<and> model (build_prompt query results) = None)) \<longrightarrow>
     gr_success (generate embedder similarity idx llm limit video_id query top_k)
   \<and> gr_retrieval_only (generate embedder similarity idx llm limit video_id query top_k)
   \<and> gr_sources (generate embedder similarity idx llm limit video_id query top_k) = results
   \<and> gr_error (generate embedder similarity idx llm limit video_id query top_k) = None
   \<and> (query = trim (chatInput page) \<and> query \<noteq> [] \<and> ragReady (workspace (store page))
        \<and> generateResponse api video_id \<lparr>gq_query = query, gq_top_k = 100\<rparr> =
            Resolved (generate embedder similarity idx llm limit video_id query top_k)
      \<longrightarrow> toasts (handleChatSubmit api video_id t1 t2 page) = toasts page
        \<and> cm_content (last (chatMessages (workspace (store (handleChatSubmit api video_id t1 t2 page))))) =
            gr_answer (generate embedder similarity idx llm limit video_id query top_k)
        \<and> cm_sources (last (chatMessages (workspace (store (handleChatSubmit api video_id t1 t2 page))))) =
            Some results)
   \<and> (query = trim (chatInput cpage) \<and> query \<noteq> [] \<and> ragReady (workspace (store cpage))
        \<and> \<not> isProcessing (workspace (store cpage))
        \<and> generateResponse capi video_id \<lparr>gq_query = query, gq_top_k = 100\<rparr> =
            Resolved (generate embedder similarity idx llm limit video_id query top_k)
      \<longrightarrow> toasts (client_handleChatSubmit capi video_id t1 t2 cpage) = toasts cpage
        \<and> cm_content (last (chatMessages (workspace (store (client_handleChatSubmit capi video_id t1 t2 cpage))))) =
            gr_answer (generate embedder similarity idx llm limit video_id query top_k)
        \<and> cm_sources (last (chatMessages (workspace (store (client_handleChatSubmit capi video_id t1 t2 cpage))))) =
            Some results)"
  (is "_ \<longrightarrow> ?concl")
proof
  let ?r = "generate embedder similarity idx llm limit video_id query top_k"
  assume "search embedder similarity idx video_id query top_k = Inr results
   \<and> (llm = None \<or> (\<exists>model. llm = Some model \<and> model (build_prompt query results) = None))"
  then have g: "gr_success ?r" "gr_retrieval_only ?r" "gr_sources ?r = results" "gr_error ?r = None"
    by (auto simp: generate_def Let_def)
  have a: "toasts (handleChatSubmit api video_id t1 t2 page) = toasts page
        \<and> cm_content (last (chatMessages (workspace (store (handleChatSubmit api video_id t1 t2 page))))) =
            gr_answer ?r
        \<and> cm_sources (last (chatMessages (workspace (store (handleChatSubmit api video_id t1 t2 page))))) =
            Some results"
    if "query = trim (chatInput page)" "query \<noteq> []" "ragReady (workspace (store page))"
      "generateResponse api video_id \<lparr>gq_query = query, gq_top_k = 100\<rparr> = Resolved ?r"
    using handleChatSubmit_success [of page api video_id ?r t1 t2] that g by simp
  have b: "toasts (client_handleChatSubmit capi video_id t1 t2 cpage) = toasts cpage
        \<and> cm_content (last (chatMessages (workspace (store (client_handleChatSubmit capi video_id t1 t2 cpage))))) =
            gr_answer ?r
        \<and> cm_sources (last (chatMessages (workspace (store (client_handleChatSubmit capi video_id t1 t2 cpage))))) =
            Some results"
    if "query = trim (chatInput cpage)" "query \<noteq> []" "ragReady (workspace (store cpage))"
      "\<not> isProcessing (workspace (store cpage))"
      "generateResponse capi video_id \<lparr>gq_query = query, gq_top_k = 100\<rparr> = Resolved ?r"
    using client_handleChatSubmit_success [of cpage capi video_id ?r t1 t2] that g by simp
  from g a b show ?concl by blast
qed

theorem generate_retrieval_only_fallback_witness:
  "search (\<lambda>t. Some [1]) (\<lambda>a b. 1) example_index ''v1'' ''risk'' 100 = Inr [result_of 1 example_chunk]
   \<and> gr_success (generate (\<lambda>t. Some [1]) (\<lambda>a b. 1) example_index None 40 ''v1'' ''risk'' 100)
   \<and> gr_retrieval_only (generate (\<lambda>t. Some [1]) (\<lambda>a b. 1) example_index None 40 ''v1'' ''risk'' 100)
   \<and> trim (chatInput example_ready_page) = ''risk''
   \<and> trim (chatInput example_ready_page) \<noteq> []
   \<and> ragReady (workspace (store example_ready_page))
   \<and> toasts (handleChatSubmit example_api ''v1'' (3, 3) (4, 4) example_ready_page) = []
   \<and> cm_sources (last (chatMessages (workspace (store
        (handleChatSubmit example_api ''v1'' (3, 3) (4, 4) example_ready_page))))) =
       Some [result_of 1 example_chunk]
   \<and> cm_sources (last (chatMessages (workspace (store
        (client_handleChatSubmit example_client_api ''v1'' (3, 3) (4, 4) example_ready_client_page))))) =
       Some [result_of 1 example_chunk]"
proof -
  have h1: "ragReady (workspace (store example_ready_page))"
    "\<not> isProcessing (workspace (store example_ready_client_page))"
    "ragReady (workspace (store example_ready_client_page))"
    by (simp_all add: example_ready_page_def example_ready_client_page_def setRagReady_def
        initialState_def initialWorkspaceState_def)
  have h2: "trim (chatInput example_ready_page) = ''risk''"
    "trim (chatInput example_ready_client_page) = ''risk''"
    by (simp_all add: example_ready_page_def example_ready_client_page_def trim_example)
  have h3: "generateResponse example_api ''v1'' \<lparr>gq_query = ''risk'', gq_top_k = 100\<rparr> =
      Resolved (generate (\<lambda>t. Some [1]) (\<lambda>a b. 1) example_index None 40 ''v1'' ''risk'' 100)"
    "generateResponse example_client_api ''v1'' \<lparr>gq_query = ''risk'', gq_top_k = 100\<rparr> =
      Resolved (generate (\<lambda>t. Some [1]) (\<lambda>a b. 1) example_index None 40 ''v1'' ''risk'' 100)"
    by (simp_all add: example_api_def example_client_api_def)
  have h4: "toasts example_ready_page = []" "toasts example_ready_client_page = []"
    by (simp_all add: example_ready_page_def example_ready_client_page_def)
  from search_example h1 h2 h3 h4
    generate_retrieval_only_fallback [where embedder = "\<lambda>t. Some [1]" and similarity = "\<lambda>a b. 1"
      and idx = example_index and video_id = "''v1''" and query = "''risk''" and top_k = 100
      and results = "[result_of 1 example_chunk]" and llm = None and limit = 40
      and page = example_ready_page and api = example_api and ?t1.0 = "(3, 3)" and ?t2.0 = "(4, 4)"
      and cpage = example_ready_client_page and capi = example_client_api]
  show ?thesis by simp
qed

definition top_k_ok :: "api_call \<Rightarrow> bool" where
  "top_k_ok c =
     (case c of Call_generateResponse v request \<Rightarrow> gq_top_k request = 100 \<and> 1 \<le> gq_top_k request
      | _ \<Rightarrow> True)"

text \<open>
  C7. Every call that a handler of the two workspace pages issues to the generate
  endpoint, the only retrieval-bearing call of the pages, passes \<open>top_k = 100\<close>, which
  meets \<open>top_k \<ge> 1\<close>; and \<open>handleChatSubmit\<close> does issue that call whenever it accepts the
  input.
\<close>

theorem generate_calls_top_k:
  "list_all top_k_ok (new_calls page (handleChatSubmit api videoId t1 t2 page))
   \<and> list_all top_k_ok (new_calls cpage (client_handleChatSubmit capi videoId t1 t2 cpage))
   \<and> list_all top_k_ok (new_calls page (snd (processTranscriptForRAG api videoId page)))
   \<and> list_all top_k_ok (new_calls cpage (snd (client_processTranscriptForRAG capi videoId cpage)))
   \<and> list_all top_k_ok (new_calls cpage (handleVerify vapi messageId cpage))
   \<and> (trim (chatInput page) \<noteq> [] \<and> ragReady (workspace (store page)) \<longrightarrow>
        Call_generateResponse videoId \<lparr>gq_query = trim (chatInput page), gq_top_k = 100\<rparr>
          \<in> set (new_calls page (handleChatSubmit api videoId t1 t2 page)))
   \<and> (trim (chatInput cpage) \<noteq> [] \<and> ragReady (workspace (store cpage))
        \<and> \<not> isProcessing (workspace (store cpage)) \<longrightarrow>
        Call_generateResponse videoId \<lparr>gq_query = trim (chatInput cpage), gq_top_k = 100\<rparr>
          \<in> set (new_calls cpage (client_handleChatSubmit capi videoId t1 t2 cpage)))"
proof -
  have 1: "list_all top_k_ok (new_calls page (handleChatSubmit api videoId t1 t2 page))"
    using handleChatSubmit_calls [of page api videoId t1 t2]
    by (auto simp: top_k_ok_def)
  have 2: "list_all top_k_ok (new_calls cpage (client_handleChatSubmit capi videoId t1 t2 cpage))"
    using client_handleChatSubmit_calls [of cpage capi videoId t1 t2]
    by (auto simp: top_k_ok_def)
  have 3: "list_all top_k_ok (new_calls page (snd (processTranscriptForRAG api videoId page)))"
    using processTranscriptForRAG_calls [of page api videoId]
    by (auto simp: top_k_ok_def list_all_iff)
  have 4: "list_all top_k_ok (new_calls cpage (snd (client_processTranscriptForRAG capi videoId cpage)))"
    using client_processTranscriptForRAG_calls [of cpage capi videoId]
    by (auto simp: top_k_ok_def list_all_iff)
  have 5: "list_all top_k_ok (new_calls cpage (handleVerify vapi messageId cpage))"
    using handleVerify_calls [of cpage vapi messageId]
    by (auto simp: top_k_ok_def)
  have 6: "Call_generateResponse videoId \<lparr>gq_query = trim (chatInput page), gq_top_k = 100\<rparr>
          \<in> set (new_calls page (handleChatSubmit api videoId t1 t2 page))"
    if "trim (chatInput page) \<noteq> []" "ragReady (workspace (store page))"
    using that
    by (auto simp: handleChatSubmit_def new_calls_def Let_def factCheckResponse_calls
        split: promise.splits)
  have 7: "Call_generateResponse videoId \<lparr>gq_query = trim (chatInput cpage), gq_top_k = 100\<rparr>
          \<in> set (new_calls cpage (client_handleChatSubmit capi videoId t1 t2 cpage))"
    if "trim (chatInput cpage) \<noteq> []" "ragReady (workspace (store cpage))"
      "\<not> isProcessing (workspace (store cpage))"
    using that
    by (auto simp: client_handleChatSubmit_def new_calls_def Let_def split: promise.splits)
  from 1 2 3 4 5 6 7 show ?thesis by blast
qed

theorem generate_calls_top_k_witness:
  "trim (chatInput example_ready_page) \<noteq> [] \<and> ragReady (workspace (store example_ready_page))
   \<and> Call_generateResponse ''v1'' \<lparr>gq_query = ''risk'', gq_top_k = 100\<rparr>
        \<in> set (new_calls example_ready_page
                 (handleChatSubmit example_api ''v1'' (3, 3) (4, 4) example_ready_page))
   \<and> list_all top_k_ok (new_calls example_ready_page
        (handleChatSubmit example_api ''v1'' (3, 3) (4, 4) example_ready_page))
   \<and> top_k_ok (Call_generateResponse ''v1'' \<lparr>gq_query = ''risk'', gq_top_k = 100\<rparr>)"
proof -
  have h1: "ragReady (workspace (store example_ready_page))"
    by (simp add: example_ready_page_def setRagReady_def)
  have h2: "trim (chatInput example_ready_page) = ''risk''"
    by (simp add: example_ready_page_def trim_example)
  from h1 h2 generate_calls_top_k [where page = example_ready_page and api = example_api
      and videoId = "''v1''" and ?t1.0 = "(3, 3)" and ?t2.0 = "(4, 4)"
      and cpage = example_ready_client_page and capi = example_client_api
      and vapi = example_client_api and messageId = "''5''"]
  have "Call_generateResponse ''v1'' \<lparr>gq_query = ''risk'', gq_top_k = 100\<rparr>
        \<in> set (new_calls example_ready_page
                 (handleChatSubmit example_api ''v1'' (3, 3) (4, 4) example_ready_page))
   \<and> list_all top_k_ok (new_calls example_ready_page
        (handleChatSubmit example_api ''v1'' (3, 3) (4, 4) example_ready_page))"
    by simp
  with h1 h2 show ?thesis by (simp add: top_k_ok_def)
qed


section \<open>Claim verification, from the specification\<close>

text \<open>
  The Fact Verification Agent is part of the backend, whose code is not among the
  sources. Its scoring step is modelled from section 4.6 of the specification, as the
  pure function of the evidence list that section 9 asks for.
\<close>

text \<open>
  Modelled from the spec: the agreement of a source excerpt with the claim, support,
  contradiction or neither.
\<close>

datatype stance = Supports | Contradicts | Neutral

text \<open>Modelled from the spec: a source excerpt with its stance towards the claim.\<close>

record Evidence =
  ev_source :: VerificationSource
  ev_stance :: stance

text \<open>
  Modelled from the spec: the parameters the specification leaves open, the relevance threshold, the weight from
  which support is strong, the fixed low confidence of an \<open>Unclear\<close> verdict without
  sources, and the confidence as a function of the mean relevance of the sources used,
  the number of source types that agree, and the consistency of the stances.
\<close>

record ScoringParams =
  relevance_threshold :: real
  strong_support :: real
  unclear_confidence :: real
  confidence_formula :: "real \<Rightarrow> nat \<Rightarrow> real \<Rightarrow> real"

text \<open>Modelled from the spec: a source is usable when it returned an excerpt.\<close>

definition usable :: "Evidence \<Rightarrow> bool" where
  "usable e = (vs_excerpt (ev_source e) \<noteq> [])"

text \<open>Modelled from the spec: the usable sources above the relevance threshold.\<close>

definition sources_used :: "ScoringParams \<Rightarrow> Evidence list \<Rightarrow> Evidence list" where
  "sources_used p evidence =
     filter (\<lambda>e. vs_relevance_score (ev_source e) > relevance_threshold p) (filter usable evidence)"

text \<open>Modelled from the spec: the sources of one stance.\<close>

definition of_stance :: "stance \<Rightarrow> Evidence list \<Rightarrow> Evidence list" where
  "of_stance st es = filter (\<lambda>e. ev_stance e = st) es"

text \<open>
  Modelled from the spec: the total weight of the sources of one stance, each source
  weighing its relevance.
\<close>

definition weight :: "stance \<Rightarrow> Evidence list \<Rightarrow> real" where
  "weight st es = sum_list (map (\<lambda>e. vs_relevance_score (ev_source e)) (of_stance st es))"

text \<open>Modelled from the spec: clamping to \<open>[0, 1]\<close>.\<close>

definition clamp01 :: "real \<Rightarrow> real" where
  "clamp01 x = max 0 (min 1 x)"

text \<open>Modelled from the spec: the mean relevance of the sources used.\<close>

definition mean_relevance :: "Evidence list \<Rightarrow> real" where
  "mean_relevance es =
     (if es = [] then 0
      else sum_list (map (\<lambda>e. vs_relevance_score (ev_source e)) es) / real (length es))"

text \<open>Modelled from the spec: the number of independent source types of one stance.\<close>

definition agreeing_types :: "stance \<Rightarrow> Evidence list \<Rightarrow> nat" where
  "agreeing_types st es =
     length (remdups (map (\<lambda>e. vs_source_type (ev_source e)) (of_stance st es)))"

text \<open>
  Modelled from the spec: the consistency of the stances, the share of the weight by
  which one side exceeds the other.
\<close>

definition consistency :: "real \<Rightarrow> real \<Rightarrow> real" where
  "consistency supporting contradicting = (if supporting + contradicting = 0 then 0 else \<bar>supporting - contradicting\<bar> / (supporting + contradicting))"

text \<open>
  Modelled from the spec: the verdict of the sources used (section 4.6), by their
  majority-weighted agreement. Without a supporting and without a contradicting source
  among them there is no agreement to weigh, and the verdict is \<open>Unclear\<close>. A tie of the
  supporting and the contradicting weight gives \<open>Partially Verified\<close>; strong, consistent
  support gives \<open>Verified\<close>; consistent contradiction gives \<open>False\<close>; mixed or weak support
  gives \<open>Partially Verified\<close>.
\<close>

definition verdict_of :: "ScoringParams \<Rightarrow> Evidence list \<Rightarrow> string" where
  "verdict_of p used =
     (if of_stance Supports used = [] \<and> of_stance Contradicts used = [] then ''Unclear''
      else if weight Supports used = weight Contradicts used then ''Partially Verified''
      else if of_stance Contradicts used = [] \<and> weight Supports used \<ge> strong_support p
        then ''Verified''
      else if of_stance Supports used = [] then ''False''
      else ''Partially Verified'')"

text \<open>
  Modelled from the spec: the scoring step of the Fact Verification Agent (section 4.6).
  Zero usable sources give \<open>Unclear\<close> with the fixed low confidence. Otherwise the verdict
  is that of the usable sources above the relevance threshold, and the confidence is
  clamped to \<open>[0, 1]\<close>.
\<close>

definition score :: "ScoringParams \<Rightarrow> Evidence list \<Rightarrow> string \<times> real" where
  "score p evidence =
     (if filter usable evidence = [] then (''Unclear'', unclear_confidence p)
      else
        (let used = sources_used p evidence;
             supporting = weight Supports used;
             contradicting = weight Contradicts used;
             majority = (if supporting \<ge> contradicting then Supports else Contradicts);
             confidence = clamp01 (confidence_formula p (mean_relevance used)
                                     (agreeing_types majority used) (consistency supporting contradicting))
         in (verdict_of p used, confidence)))"

text \<open>
  Modelled from the spec: the record \<open>ClaimVerification\<close> of section 3, with the field names
  of the specification. The type \<open>ClaimVerification\<close> of podsearch-frontend names the
  fields \<open>verdict\<close>, \<open>verification_timestamp\<close> and \<open>reasoning_trace\<close> as \<open>status\<close>,
  \<open>verification_date\<close> and \<open>agent_reasoning\<close>.
\<close>

record SpecClaimVerification =
  scv_claim :: string
  scv_verdict :: string
  scv_confidence :: real
  scv_explanation :: string
  scv_sources :: "VerificationSource list"
  scv_verification_timestamp :: string
  scv_reasoning_trace :: string

text \<open>
  Modelled from the spec: the \<open>ClaimVerification\<close> of one claim. \<open>explain\<close> writes the
  explanation and the reasoning trace; the sources are the usable ones.
\<close>

definition verify_claim :: "ScoringParams \<Rightarrow> (string \<Rightarrow> Evidence list \<Rightarrow> string \<times> string) \<Rightarrow>
    string \<Rightarrow> string \<Rightarrow> Evidence list \<Rightarrow> SpecClaimVerification" where
  "verify_claim p explain date claim evidence =
     \<lparr>scv_claim = claim, scv_verdict = fst (score p evidence),
      scv_confidence = snd (score p evidence),
      scv_explanation = fst (explain (fst (score p evidence)) evidence),
      scv_sources = map ev_source (filter usable evidence),
      scv_verification_timestamp = date,
      scv_reasoning_trace = snd (explain (fst (score p evidence)) evidence)\<rparr>"

text \<open>The names of the declared type \<open>SourceType\<close>.\<close>

definition source_type_name :: "SourceType \<Rightarrow> string" where
  "source_type_name t =
     (case t of
        Wikipedia \<Rightarrow> ''Wikipedia''
      | PubMed \<Rightarrow> ''PubMed''
      | Semantic_Scholar \<Rightarrow> ''Semantic Scholar''
      | News \<Rightarrow> ''News''
      | Search_Engine \<Rightarrow> ''Search Engine''
      | Academic \<Rightarrow> ''Academic'')"

text \<open>
  Modelled from the spec: the JSON of a \<open>VerificationSource\<close> and of a \<open>ClaimVerification\<close>
  in a response of the backend, which is not among the sources, with the fields of
  section 3.
\<close>

definition source_body :: "VerificationSource \<Rightarrow> json" where
  "source_body s =
     JObj ([(''title'', JStr (vs_title s)), (''url'', JStr (vs_url s)),
            (''source_type'', JStr (source_type_name (vs_source_type s))),
            (''relevance_score'', JNum (vs_relevance_score s)),
            (''excerpt'', JStr (vs_excerpt s))] @
           opt_field ''publication_date'' (map_option JStr (vs_publication_date s)) @
           opt_field ''author'' (map_option JStr (vs_author s)))"

definition verification_body :: "SpecClaimVerification \<Rightarrow> json" where
  "verification_body v =
     JObj [(''claim'', JStr (scv_claim v)), (''verdict'', JStr (scv_verdict v)),
           (''confidence'', JNum (scv_confidence v)),
           (''explanation'', JStr (scv_explanation v)),
           (''sources'', JArr (map source_body (scv_sources v))),
           (''verification_timestamp'', JStr (scv_verification_timestamp v)),
           (''reasoning_trace'', JStr (scv_reasoning_trace v))]"

text \<open>
  Modelled from the spec: a claim text is valid input when it is neither empty nor
  oversized (\<open>InvalidClaimInput\<close>, section 7); the specification leaves the size limit open.
\<close>

definition valid_claim :: "nat \<Rightarrow> string \<Rightarrow> bool" where
  "valid_claim limit claim = (claim \<noteq> [] \<and> length claim \<le> limit)"

text \<open>
  Modelled from the spec: the operation behind \<open>POST /verify\<close> (sections 4.6, 6 and 7) of
  the backend, which is not among the sources. A request without claims, or with an
  empty or oversized claim, is rejected before dispatch and gets no response body
  (\<open>None\<close>). Otherwise every claim is verified on the evidence that \<open>gather\<close> collects for
  it from the source tools, and the response lists one \<open>ClaimVerification\<close> per claim,
  the number of claims and the processing time \<open>elapsed\<close>. Tools that fail
  only shorten the evidence; they cause no error.
\<close>

definition verify :: "ScoringParams \<Rightarrow> (string \<Rightarrow> Evidence list \<Rightarrow> string \<times> string) \<Rightarrow>
    (FactVerificationRequest \<Rightarrow> string \<Rightarrow> Evidence list) \<Rightarrow> nat \<Rightarrow> string \<Rightarrow> real \<Rightarrow>
    FactVerificationRequest \<Rightarrow> json option" where
  "verify p explain gather limit date elapsed request =
     (if fq_claims request = [] \<or> \<not> list_all (valid_claim limit) (fq_claims request) then None
      else Some (JObj
        [(''success'', JBool True),
         (''verifications'',
            JArr (map (\<lambda>claim. verification_body
                         (verify_claim p explain date claim (gather request claim)))
                   (fq_claims request))),
         (''total_claims'', JNum (real (length (fq_claims request)))),
         (''processing_time'', JNum elapsed)]))"

definition example_params :: ScoringParams where
  "example_params =
     \<lparr>relevance_threshold = 1/2, strong_support = 3/2, unclear_confidence = 1/10,
      confidence_formula = (\<lambda>mean types cons. mean * (1 + cons) / 2 + real types / 10)\<rparr>"

definition example_source :: "real \<Rightarrow> string \<Rightarrow> VerificationSource" where
  "example_source relevance excerpt =
     \<lparr>vs_title = ''Earth'', vs_url = ''https://en.wikipedia.org/wiki/Earth'',
      vs_source_type = Wikipedia, vs_relevance_score = relevance, vs_excerpt = excerpt,
      vs_publication_date = None, vs_author = None\<rparr>"

subsection \<open>The verdict\<close>

lemma verdict_of_enumerated: "verdict_of p used \<in> set enumerated_verdicts"
  by (simp add: verdict_of_def enumerated_verdicts_def)

lemma score_enumerated: "fst (score p evidence) \<in> set enumerated_verdicts"
proof (cases "filter usable evidence = []")
  case True
  then show ?thesis by (simp add: score_def enumerated_verdicts_def)
next
  case False
  then have "fst (score p evidence) = verdict_of p (sources_used p evidence)"
    by (simp add: score_def Let_def)
  then show ?thesis by (simp add: verdict_of_enumerated)
qed

lemma score_no_usable: "filter usable evidence = [] \<Longrightarrow> fst (score p evidence) = ''Unclear''"
  by (simp add: score_def)

lemma status_of_enumerated: "verdict \<in> set enumerated_verdicts \<Longrightarrow> status_of verdict \<noteq> None"
  by (auto simp: status_of_def enumerated_verdicts_def)

text \<open>
  C3. The verdict of every \<open>ClaimVerification\<close> that verification produces is one of the
  four values \<open>Verified\<close>, \<open>Partially Verified\<close>, \<open>False\<close> and \<open>Unclear\<close>, each of which names a
  value of the declared type \<open>VerificationStatus\<close>, and it is \<open>Unclear\<close> whenever no usable
  source was found, that is, whenever the record lists no source. The verdict of the
  client's \<open>ClaimVerification\<close> is a plain string, and its badge tests for \<open>Supported\<close> and
  \<open>Contradicted\<close>: every verdict that verification produces gets the badge of an unclear
  result.
\<close>

theorem verdict_enumerated_and_unclear:
  "scv_verdict (verify_claim p explain date claim evidence)
     \<in> {''Verified'', ''Partially Verified'', ''False'', ''Unclear''}
   \<and> status_of (scv_verdict (verify_claim p explain date claim evidence)) \<noteq> None
   \<and> (filter usable evidence = [] \<longrightarrow>
        scv_verdict (verify_claim p explain date claim evidence) = ''Unclear'')
   \<and> (scv_sources (verify_claim p explain date claim evidence) = [] \<longrightarrow>
        scv_verdict (verify_claim p explain date claim evidence) = ''Unclear'')
   \<and> verdict_badge (scv_verdict (verify_claim p explain date claim evidence)) = ''fact-check-unclear''"
proof -
  have v: "scv_verdict (verify_claim p explain date claim evidence) = fst (score p evidence)"
    by (simp add: verify_claim_def)
  have m: "fst (score p evidence) \<in> set enumerated_verdicts"
    by (rule score_enumerated)
  have 1: "fst (score p evidence) \<in> {''Verified'', ''Partially Verified'', ''False'', ''Unclear''}"
    using m by (simp add: enumerated_verdicts_def)
  have 2: "status_of (fst (score p evidence)) \<noteq> None"
    using m by (rule status_of_enumerated)
  have 3: "fst (score p evidence) = ''Unclear''" if "filter usable evidence = []"
    using that by (rule score_no_usable)
  have 4: "fst (score p evidence) = ''Unclear''"
    if "scv_sources (verify_claim p explain date claim evidence) = []"
    using that by (simp add: verify_claim_def score_no_usable)
  have 5: "verdict_badge (fst (score p evidence)) = ''fact-check-unclear''"
    using 1 by (rule verdict_badge_spec_verdicts)
  from 1 2 3 4 5 show ?thesis unfolding v by blast
qed

theorem verdict_enumerated_and_unclear_witness:
  "filter usable [\<lparr>ev_source = example_source (9/10) [], ev_stance = Supports\<rparr>] = []
   \<and> scv_sources (verify_claim example_params (\<lambda>v e. ([], [])) ''2024-01-15'' ''The Earth is flat''
        [\<lparr>ev_source = example_source (9/10) [], ev_stance = Supports\<rparr>]) = []
   \<and> scv_verdict (verify_claim example_params (\<lambda>v e. ([], [])) ''2024-01-15'' ''The Earth is flat''
        [\<lparr>ev_source = example_source (9/10) [], ev_stance = Supports\<rparr>]) = ''Unclear''
   \<and> status_of ''Unclear'' = Some Unclear"
proof -
  have u: "filter usable [\<lparr>ev_source = example_source (9/10) [], ev_stance = Supports\<rparr>] = []"
    by (simp add: usable_def example_source_def)
  then have s: "scv_sources (verify_claim example_params (\<lambda>v e. ([], [])) ''2024-01-15'' ''The Earth is flat''
        [\<lparr>ev_source = example_source (9/10) [], ev_stance = Supports\<rparr>]) = []"
    by (simp add: verify_claim_def)
  have t: "status_of ''Unclear'' = Some Unclear"
    by (simp add: status_of_def)
  from u s t verdict_enumerated_and_unclear [where p = example_params and explain = "\<lambda>v e. ([], [])"
      and date = "''2024-01-15''" and claim = "''The Earth is flat''"
      and evidence = "[\<lparr>ev_source = example_source (9/10) [], ev_stance = Supports\<rparr>]"]
  show ?thesis by blast
qed

subsection \<open>The tie and the confidence\<close>

text \<open>
  With a supporting or a contradicting source among the sources used, a tie of the two
  weights gives \<open>Partially Verified\<close>; without one the verdict is \<open>Unclear\<close>, also at the
  empty evidence list, where both weights are zero. A tie never gives \<open>Verified\<close> or
  \<open>False\<close>.
\<close>

lemma score_tie:
  assumes "weight Supports (sources_used p evidence) = weight Contradicts (sources_used p evidence)"
    and "of_stance Supports (sources_used p evidence) \<noteq> []
         \<or> of_stance Contradicts (sources_used p evidence) \<noteq> []"
  shows "fst (score p evidence) = ''Partially Verified''"
proof -
  from assms(2) have "sources_used p evidence \<noteq> []"
    by (auto simp: of_stance_def)
  then have "filter usable evidence \<noteq> []"
    by (auto simp: sources_used_def filter_empty_conv)
  with assms show ?thesis
    by (auto simp: score_def Let_def verdict_of_def)
qed

lemma score_no_stance:
  assumes "of_stance Supports (sources_used p evidence) = []"
    and "of_stance Contradicts (sources_used p evidence) = []"
  shows "fst (score p evidence) = ''Unclear''"
  using assms by (simp add: score_def Let_def verdict_of_def)

lemma score_tie_never_verified_or_false:
  assumes "weight Supports (sources_used p evidence) = weight Contradicts (sources_used p evidence)"
  shows "fst (score p evidence) \<noteq> ''Verified'' \<and> fst (score p evidence) \<noteq> ''False''"
  using assms by (simp add: score_def Let_def verdict_of_def)

lemma score_empty: "fst (score p []) = ''Unclear''"
  by (simp add: score_def)

lemma score_confidence_bounds:
  "0 \<le> unclear_confidence p \<Longrightarrow> unclear_confidence p \<le> 1 \<Longrightarrow>
     0 \<le> snd (score p evidence) \<and> snd (score p evidence) \<le> 1"
  by (simp add: score_def Let_def clamp01_def)

section \<open>The verification request and its response\<close>

definition verification_keys :: "string list" where
  "verification_keys =
     [''claims'', ''video_id'', ''context'', ''search_depth'', ''include_academic'', ''include_news'']"

definition response_keys :: "string list" where
  "response_keys = [''success'', ''verifications'', ''total_claims'', ''processing_time'']"

text \<open>
  Modelled from the spec: \<open>factVerificationApi.verifyClaims\<close> of \<open>lib/api\<close>, which is not
  among the sources, posts its argument to \<open>/verify\<close>. A call is in order when it is no
  such call or its body has exactly the fields of the \<open>POST /verify\<close> body.
  \<open>verifyApi.verifyClaim\<close> of the client is another operation, with the body
  \<open>VerifyRequest\<close> and the response \<open>VerifyResponse\<close>, \<open>{success, claim, result?, error?}\<close>,
  which the specification does not describe.
\<close>

definition verify_call_ok :: "api_call \<Rightarrow> bool" where
  "verify_call_ok c =
     (case c of
        Call_verifyClaims request \<Rightarrow>
          spec_verify_request (encode_FactVerificationRequest request)
          \<and> object_keys (encode_FactVerificationRequest request) = verification_keys
      | _ \<Rightarrow> True)"

definition is_verifyClaims :: "api_call \<Rightarrow> bool" where
  "is_verifyClaims c = (case c of Call_verifyClaims request \<Rightarrow> True | _ \<Rightarrow> False)"

lemma factCheck_request_shape:
  "spec_verify_request (encode_FactVerificationRequest (factCheck_request videoId answer ragResponse))"
  "object_keys (encode_FactVerificationRequest (factCheck_request videoId answer ragResponse)) =
     verification_keys"
  by (simp_all add: spec_verify_request_def encode_FactVerificationRequest_def factCheck_request_def
      opt_field_def is_object_def object_keys_def has_def may_have_def field_def is_string_array_def
      is_string_def is_number_def is_boolean_def list_all_iff verification_keys_def)

lemma verification_body_shape: "spec_claim_verification (verification_body (verify_claim p explain date claim evidence))"
  using score_enumerated [of p evidence]
  by (simp add: spec_claim_verification_def verification_body_def verify_claim_def
      is_object_def object_keys_def has_def field_def is_string_def is_number_def is_array_def
      is_verdict_def)

lemma verify_response_shape:
  assumes "verify p explain gather limit date elapsed request = Some body"
  shows "spec_verify_response body" "object_keys body = response_keys"
proof -
  from assms have b: "body = JObj
        [(''success'', JBool True),
         (''verifications'',
            JArr (map (\<lambda>claim. verification_body
                         (verify_claim p explain date claim (gather request claim)))
                   (fq_claims request))),
         (''total_claims'', JNum (real (length (fq_claims request)))),
         (''processing_time'', JNum elapsed)]"
    by (simp add: verify_def split: if_splits)
  show "object_keys body = response_keys"
    unfolding b by (simp add: object_keys_def response_keys_def)
  have "list_all spec_claim_verification
      (map (\<lambda>claim. verification_body (verify_claim p explain date claim (gather request claim)))
         (fq_claims request))"
    by (simp add: list_all_iff verification_body_shape)
  then show "spec_verify_response body"
    unfolding b
    by (simp add: spec_verify_response_def is_object_def object_keys_def has_def may_have_def
        field_def is_boolean_def is_number_def is_verification_array_def)
qed

text \<open>
  C5. Every verification request that a handler of the page sends to \<open>POST /verify\<close>
  (\<open>factCheckResponse\<close>, reached from \<open>handleChatSubmit\<close>) carries exactly the fields
  \<open>claims\<close>, a list of strings, \<open>video_id\<close>, \<open>context\<close>, \<open>search_depth\<close>, \<open>include_academic\<close> and
  \<open>include_news\<close>; \<open>handleVerify\<close> of the client page sends no such request. Every
  response to a verification request carries exactly \<open>success\<close>, \<open>verifications\<close>, a list of
  \<open>ClaimVerification\<close> records, \<open>total_claims\<close> and \<open>processing_time\<close>, of the fields
  \<open>success\<close>, \<open>verifications\<close>, \<open>total_claims\<close>, \<open>processing_time\<close> and \<open>error\<close>, and the request
  of the page for an answer that is a valid claim gets a response.
\<close>

theorem verification_request_fields:
  "list_all verify_call_ok (new_calls page (handleChatSubmit api videoId t1 t2 page))
   \<and> list_all verify_call_ok (new_calls page (factCheckResponse api videoId answer ragResponse page))
   \<and> new_calls page (factCheckResponse api videoId answer ragResponse page) =
       [Call_verifyClaims (factCheck_request videoId answer ragResponse)]
   \<and> spec_verify_request (encode_FactVerificationRequest (factCheck_request videoId answer ragResponse))
   \<and> object_keys (encode_FactVerificationRequest (factCheck_request videoId answer ragResponse)) =
       verification_keys
   \<and> filter is_verifyClaims (new_calls cpage (handleVerify vapi messageId cpage)) = []
   \<and> (verify p explain gather limit date elapsed request = Some body \<longrightarrow>
        spec_verify_response body \<and> object_keys body = response_keys)
   \<and> (valid_claim limit answer \<longrightarrow>
        verify p explain gather limit date elapsed (factCheck_request videoId answer ragResponse) \<noteq> None)"
proof -
  have 1: "list_all verify_call_ok (new_calls page (handleChatSubmit api videoId t1 t2 page))"
    using handleChatSubmit_calls [of page api videoId t1 t2]
    by (auto simp: verify_call_ok_def factCheck_request_shape)
  have 2: "list_all verify_call_ok (new_calls page (factCheckResponse api videoId answer ragResponse page))"
    by (simp add: new_calls_def factCheckResponse_calls verify_call_ok_def factCheck_request_shape)
  have 3: "new_calls page (factCheckResponse api videoId answer ragResponse page) =
       [Call_verifyClaims (factCheck_request videoId answer ragResponse)]"
    by (simp add: new_calls_def factCheckResponse_calls)
  have 4: "filter is_verifyClaims (new_calls cpage (handleVerify vapi messageId cpage)) = []"
    using handleVerify_calls [of cpage vapi messageId]
    by (auto simp: is_verifyClaims_def)
  have 5: "spec_verify_response body \<and> object_keys body = response_keys"
    if "verify p explain gather limit date elapsed request = Some body"
    using verify_response_shape [OF that] by simp
  have 6: "verify p explain gather limit date elapsed (factCheck_request videoId answer ragResponse) \<noteq> None"
    if "valid_claim limit answer"
    using that by (simp add: verify_def factCheck_request_def)
  from 1 2 3 4 5 6 factCheck_request_shape [of videoId answer ragResponse]
  show ?thesis by blast
qed

theorem verification_request_fields_witness:
  "valid_claim 500 ''AI safety is important. Sam Altman discu''
   \<and> verify example_params (\<lambda>v e. (''Contradicted by Wikipedia'', ''Asked Wikipedia''))
       (\<lambda>r c. [\<lparr>ev_source = example_source (9/10) ''No such statement is on record'',
                 ev_stance = Contradicts\<rparr>])
       500 ''2024-01-15T10:30:00'' (25/2)
       (factCheck_request ''v1'' ''AI safety is important. Sam Altman discu''
          (generate (\<lambda>t. Some [1]) (\<lambda>a b. 1) example_index None 40 ''v1'' ''risk'' 100)) =
     Some (JObj
       [(''success'', JBool True),
        (''verifications'',
           JArr [JObj
             [(''claim'', JStr ''AI safety is important. Sam Altman discu''),
              (''verdict'', JStr ''False''), (''confidence'', JNum 1),
              (''explanation'', JStr ''Contradicted by Wikipedia''),
              (''sources'',
                 JArr [JObj
                   [(''title'', JStr ''Earth''),
                    (''url'', JStr ''https://en.wikipedia.org/wiki/Earth''),
                    (''source_type'', JStr ''Wikipedia''),
                    (''relevance_score'', JNum (9/10)),
                    (''excerpt'', JStr ''No such statement is on record'')]]),
              (''verification_timestamp'', JStr ''2024-01-15T10:30:00''),
              (''reasoning_trace'', JStr ''Asked Wikipedia'')]]),
        (''total_claims'', JNum 1), (''processing_time'', JNum (25/2))])
   \<and> spec_verify_response (JObj
       [(''success'', JBool True),
        (''verifications'',
           JArr [JObj
             [(''claim'', JStr ''AI safety is important. Sam Altman discu''),
              (''verdict'', JStr ''False''), (''confidence'', JNum 1),
              (''explanation'', JStr ''Contradicted by Wikipedia''),
              (''sources'',
                 JArr [JObj
                   [(''title'', JStr ''Earth''),
                    (''url'', JStr ''https://en.wikipedia.org/wiki/Earth''),
                    (''source_type'', JStr ''Wikipedia''),
                    (''relevance_score'', JNum (9/10)),
                    (''excerpt'', JStr ''No such statement is on record'')]]),
              (''verification_timestamp'', JStr ''2024-01-15T10:30:00''),
              (''reasoning_trace'', JStr ''Asked Wikipedia'')]]),
        (''total_claims'', JNum 1), (''processing_time'', JNum (25/2))])
   \<and> Call_verifyClaims (factCheck_request ''v1'' ''AI safety is important. Sam Altman discu''
         (generate (\<lambda>t. Some [1]) (\<lambda>a b. 1) example_index None 40 ''v1'' ''risk'' 100))
       \<in> set (new_calls example_ready_page
            (handleChatSubmit example_api ''v1'' (3, 3) (4, 4) example_ready_page))
   \<and> list_all verify_call_ok (new_calls example_ready_page
          (handleChatSubmit example_api ''v1'' (3, 3) (4, 4) example_ready_page))
   \<and> object_keys (encode_FactVerificationRequest
        (factCheck_request ''v1'' ''AI safety is important. Sam Altman discu''
          (generate (\<lambda>t. Some [1]) (\<lambda>a b. 1) example_index None 40 ''v1'' ''risk'' 100))) =
       verification_keys"
  (is "?valid \<and> ?verify = Some ?body \<and> _")
proof -
  have g: "generate (\<lambda>t. Some [1]) (\<lambda>a b. 1) example_index None 40 ''v1'' ''risk'' 100 =
      \<lparr>gr_success = True, gr_query = ''risk'', gr_video_id = ''v1'',
       gr_answer = ''AI safety is important. Sam Altman discu'',
       gr_sources = [result_of 1 example_chunk], gr_retrieval_only = True, gr_error = None\<rparr>"
    by (simp add: generate_def search_example fallback_answer_def result_of_def example_chunk_def)
  have c: "Call_verifyClaims (factCheck_request ''v1'' ''AI safety is important. Sam Altman discu''
       (generate (\<lambda>t. Some [1]) (\<lambda>a b. 1) example_index None 40 ''v1'' ''risk'' 100))
     \<in> set (new_calls example_ready_page
          (handleChatSubmit example_api ''v1'' (3, 3) (4, 4) example_ready_page))"
    unfolding g
    by (simp add: handleChatSubmit_def example_ready_page_def trim_example setRagReady_def Let_def
        example_api_def g new_calls_def factCheckResponse_calls)
  have v: ?valid
    by (simp add: valid_claim_def)
  have s: "score example_params
      [\<lparr>ev_source = example_source (9/10) ''No such statement is on record'',
        ev_stance = Contradicts\<rparr>] = (''False'', 1)"
    by (simp add: score_def Let_def usable_def example_source_def sources_used_def example_params_def
        verdict_of_def of_stance_def weight_def mean_relevance_def agreeing_types_def
        consistency_def clamp01_def)
  have h: "?verify = Some ?body"
    by (simp add: verify_def factCheck_request_def valid_claim_def verification_body_def
        verify_claim_def s)
      (simp add: source_body_def usable_def example_source_def opt_field_def source_type_name_def)
  from c v h verification_request_fields [where page = example_ready_page and api = example_api
      and videoId = "''v1''" and ?t1.0 = "(3, 3)" and ?t2.0 = "(4, 4)"
      and answer = "''AI safety is important. Sam Altman discu''"
      and ragResponse = "generate (\<lambda>t. Some [1]) (\<lambda>a b. 1) example_index None 40 ''v1'' ''risk'' 100"
      and cpage = example_ready_client_page and vapi = example_client_api and messageId = "''5''"
      and p = example_params
      and explain = "\<lambda>v e. (''Contradicted by Wikipedia'', ''Asked Wikipedia'')"
      and gather = "\<lambda>r c. [\<lparr>ev_source = example_source (9/10) ''No such statement is on record'',
                 ev_stance = Contradicts\<rparr>]"
      and limit = 500 and date = "''2024-01-15T10:30:00''" and elapsed = "25/2"
      and request = "factCheck_request ''v1'' ''AI safety is important. Sam Altman discu''
          (generate (\<lambda>t. Some [1]) (\<lambda>a b. 1) example_index None 40 ''v1'' ''risk'' 100)"
      and body = ?body]
  show ?thesis by blast
qed

end
